theory Spec2Isabelle
  imports Complex_Main
begin

section \<open>Values shared by the utility layer\<close>

text \<open>
  The utilities are JavaScript (module \<open>M/impl/utils\<close> and the projection catalogue
  \<open>M/impl/ol/js/projections\<close>). In the extent engine and the resolution generator a
  JavaScript number is taken as a real number; a computation that leaves the finite
  numbers (a \<open>NaN\<close> from an \<open>undefined\<close> operand, an infinity from a division by zero) is
  reported as \<open>NonFinite\<close> and not followed further. The scale calculator computes in
  doubles (section JavaScript numbers). Reading a property of \<open>null\<close> or \<open>undefined\<close>,
  which raises in JavaScript, is \<open>TypeError\<close>.
\<close>

datatype js_abort = TypeError | NonFinite

type_synonym coordinate = "real list"

text \<open>\<open>xs[i]\<close> on an array: the element, or \<open>undefined\<close> (here \<open>None\<close>) out of range.\<close>

definition js_index :: "'a list \<Rightarrow> nat \<Rightarrow> 'a option" where
  "js_index xs i = (if i < length xs then Some (xs ! i) else None)"

text \<open>\<open>Math.floor(n / 2)\<close> for an array length \<open>n\<close>, as the centroid routines compute it.\<close>

definition medianIdx :: "nat \<Rightarrow> nat" where
  "medianIdx n = nat \<lfloor>real n / 2\<rfloor>"

text \<open>
  Modelled from the spec: \<open>isNullOrEmpty\<close> of \<open>M/util/Utils\<close>, which is not among the
  sources; the specification reads it as "absent". An argument that was not passed, or is
  \<open>null\<close>, is \<open>None\<close>; an empty array counts as absent too, and so does a string with
  nothing but blanks in it; a number never does.
\<close>

definition isNullOrEmpty :: "'a option \<Rightarrow> bool" where
  "isNullOrEmpty x = (x = None)"

definition isNullOrEmpty_array :: "'a list option \<Rightarrow> bool" where
  "isNullOrEmpty_array x = (x = None \<or> x = Some [])"

definition isNullOrEmpty_string :: "string option \<Rightarrow> bool" where
  "isNullOrEmpty_string x = (case x of None \<Rightarrow> True | Some s \<Rightarrow> list_all (\<lambda>c. c = CHR '' '') s)"

section \<open>CRS registry\<close>

text \<open>
  An entry of the compiled catalogue, as the object literals of the projections module
  spell it: the transform definition, the validity extent, the alias codes, the unit
  (\<open>'d'\<close> or \<open>'m'\<close>), and the optional meters per unit and axis orientation.
\<close>

record crs_definition =
  "def" :: string
  extent :: "real list"
  codes :: "string list"
  units :: string
  metersPerUnit :: "real option"
  axisOrientation :: "string option"

text \<open>
  The CRS metadata object of the toolkit (\<open>ol/proj/Projection\<close>) with the options the
  source passes to its constructor, and the world extent that \<open>getWorldExtent\<close> reads.
\<close>

record projection =
  proj_code :: string
  proj_extent :: "real list option"
  proj_units :: string
  proj_metersPerUnit :: "real option"
  proj_axisOrientation :: "string option"
  proj_worldExtent :: "real list option"

text \<open>
  The process-wide state that registration writes: the definition strings of the
  transform engine (\<open>proj4.defs\<close>) and the toolkit's projection cache, both keyed by
  code. Storing under a code that is already present replaces the entry.
\<close>

record registry =
  proj4_defs :: "string \<rightharpoonup> string"
  ol_projections :: "string \<rightharpoonup> projection"

definition empty_registry :: registry where
  "empty_registry = \<lparr>proj4_defs = Map.empty, ol_projections = Map.empty\<rparr>"

definition newOLProjection :: "crs_definition \<Rightarrow> string \<Rightarrow> projection" where
  "newOLProjection d c = \<lparr>
     proj_code = c,
     proj_extent = Some (extent d),
     proj_units = units d,
     proj_metersPerUnit = metersPerUnit d,
     proj_axisOrientation = axisOrientation d,
     proj_worldExtent = None\<rparr>"

definition proj4_defs_set :: "string \<Rightarrow> string \<Rightarrow> registry \<Rightarrow> registry" where
  "proj4_defs_set c d r = r\<lparr>proj4_defs := (proj4_defs r)(c \<mapsto> d)\<rparr>"

text \<open>
  \<open>addEquivalentProjections\<close> of \<open>ol/proj\<close> adds each projection to the cache under its
  own code (the transforms between the aliases, which it also records, are not part of
  the metadata and are left out).
\<close>

definition addEquivalentProjections :: "projection list \<Rightarrow> registry \<Rightarrow> registry" where
  "addEquivalentProjections ps r =
     fold (\<lambda>p r. r\<lparr>ol_projections := (ol_projections r)(proj_code p \<mapsto> p)\<rparr>) ps r"

text \<open>
  \<open>addProjections\<close>: for each catalogue entry, every code is given to \<open>proj4.defs\<close> with
  the entry's definition string, then one projection object per code is built from the
  entry's extent, units, meters per unit and axis orientation, and the objects are added
  as equivalent projections. \<open>registerEntry\<close> is the body of the outer \<open>forEach\<close>.
\<close>

definition registerEntry :: "crs_definition \<Rightarrow> registry \<Rightarrow> registry" where
  "registerEntry projection r =
     (let r' = fold (\<lambda>c. proj4_defs_set c (def projection)) (codes projection) r;
          olProjections = map (newOLProjection projection) (codes projection)
      in addEquivalentProjections olProjections r')"

definition addProjections :: "crs_definition list \<Rightarrow> registry \<Rightarrow> registry" where
  "addProjections projectionsParam r = fold registerEntry projectionsParam r"

text \<open>\<open>get\<close> of \<open>ol/proj\<close> (imported as \<open>getProj\<close>) on a code: the cached projection, or \<open>null\<close>.\<close>

definition getProj :: "registry \<Rightarrow> string \<Rightarrow> projection option" where
  "getProj r c = ol_projections r c"

definition proj4258 :: crs_definition where
  "proj4258 = \<lparr>
     def = ''+proj=longlat +ellps=GRS80 +towgs84=0,0,0,0,0,0,0 +no_defs'',
     extent = [-16.1, 32.88, 39.65, 84.17],
     codes = [''EPSG:4258'',
              ''urn:ogc:def:crs:EPSG::4258'',
              ''http://www.opengis.net/gml/srs/epsg.xml#4258''],
     units = ''d'',
     metersPerUnit = Some 111319.49079327358,
     axisOrientation = None\<rparr>"

definition proj25828 :: crs_definition where
  "proj25828 = \<lparr>
     def = ''+proj=utm +zone=28 +ellps=GRS80 +towgs84=0,0,0,0,0,0,0 +units=m +no_defs'',
     extent = [397101.09, 3638520.14, 1034670.43, 9625438.82],
     codes = [''EPSG:25828'',
              ''urn:ogc:def:crs:EPSG::25828'',
              ''http://www.opengis.net/gml/srs/epsg.xml#25828''],
     units = ''m'',
     metersPerUnit = None,
     axisOrientation = None\<rparr>"

definition proj25829 :: crs_definition where
  "proj25829 = \<lparr>
     def = ''+proj=utm +zone=29 +ellps=GRS80 +towgs84=0,0,0,0,0,0,0 +units=m +no_defs'',
     extent = [-164850.78, 3660417.01, 988728.57, 9567111.85],
     codes = [''EPSG:25829'',
              ''urn:ogc:def:crs:EPSG::25829'',
              ''http://www.opengis.net/gml/srs/epsg.xml#25829''],
     units = ''m'',
     metersPerUnit = None,
     axisOrientation = None\<rparr>"

definition proj25830 :: crs_definition where
  "proj25830 = \<lparr>
     def = ''+proj=utm +zone=30 +ellps=GRS80 +towgs84=0,0,0,0,0,0,0 +units=m +no_defs'',
     extent = [-729785.83, 3715125.82, 940929.67, 9518470.69],
     codes = [''EPSG:25830'',
              ''urn:ogc:def:crs:EPSG::25830'',
              ''http://www.opengis.net/gml/srs/epsg.xml#23030''],
     units = ''m'',
     metersPerUnit = None,
     axisOrientation = None\<rparr>"

definition proj25831 :: crs_definition where
  "proj25831 = \<lparr>
     def = ''+proj=utm +zone=31 +ellps=GRS80 +towgs84=0,0,0,0,0,0,0 +units=m +no_defs'',
     extent = [-1300111.74, 3804640.43, 893164.13, 9478718.31],
     codes = [''EPSG:25831'',
              ''urn:ogc:def:crs:EPSG::25831'',
              ''http://www.opengis.net/gml/srs/epsg.xml#25831''],
     units = ''m'',
     metersPerUnit = None,
     axisOrientation = None\<rparr>"

definition proj4230 :: crs_definition where
  "proj4230 = \<lparr>
     def = ''+proj=longlat +ellps=intl +no_defs'',
     extent = [-16.09882145355955, 25.711114310330917, 48.60999527749605, 84.16977336415472],
     codes = [''EPSG:4230'',
              ''urn:ogc:def:crs:EPSG::4230'',
              ''http://www.opengis.net/gml/srs/epsg.xml#4230''],
     units = ''d'',
     metersPerUnit = Some 111319.49079327358,
     axisOrientation = None\<rparr>"

definition proj23028 :: crs_definition where
  "proj23028 = \<lparr>
     def = ''+proj=utm +zone=28 +ellps=intl +towgs84=-87,-98,-121,0,0,0,0 +units=m +no_defs'',
     extent = [997517.95, 3873475.61, 2024693.05, 8529441.99],
     codes = [''EPSG:23028'',
              ''urn:ogc:def:crs:EPSG::23028'',
              ''http://www.opengis.net/gml/srs/epsg.xml#23028''],
     units = ''m'',
     metersPerUnit = None,
     axisOrientation = None\<rparr>"

definition proj23029 :: crs_definition where
  "proj23029 = \<lparr>
     def = ''+proj=utm +zone=29 +ellps=intl +towgs84=-87,-98,-121,0,0,0,0 +units=m +no_defs'',
     extent = [448933.91, 3860083.93, 1860436.11, 8381369.16],
     codes = [''EPSG:23029'',
              ''urn:ogc:def:crs:EPSG::23029'',
              ''http://www.opengis.net/gml/srs/epsg.xml#23029''],
     units = ''m'',
     metersPerUnit = None,
     axisOrientation = None\<rparr>"

definition proj23030 :: crs_definition where
  "proj23030 = \<lparr>
     def = ''+proj=utm +zone=30 +ellps=intl +towgs84=-87,-98,-121,0,0,0,0 +units=m +no_defs'',
     extent = [-99844.71, 3879626.63, 1682737.72, 8251830.80],
     codes = [''EPSG:23030'',
              ''urn:ogc:def:crs:EPSG::23030'',
              ''http://www.opengis.net/gml/srs/epsg.xml#23030''],
     units = ''m'',
     metersPerUnit = None,
     axisOrientation = None\<rparr>"

definition proj23031 :: crs_definition where
  "proj23031 = \<lparr>
     def = ''+proj=utm +zone=31 +ellps=intl +towgs84=-87,-98,-121,0,0,0,0 +units=m +no_defs'',
     extent = [-650883.16, 3932764.97, 1493695.91, 8141744.84],
     codes = [''EPSG:23031'',
              ''urn:ogc:def:crs:EPSG::23031'',
              ''http://www.opengis.net/gml/srs/epsg.xml#23031''],
     units = ''m'',
     metersPerUnit = None,
     axisOrientation = None\<rparr>"

definition proj4326 :: crs_definition where
  "proj4326 = \<lparr>
     def = ''+proj=longlat +datum=WGS84 +no_defs'',
     extent = [-180, -90, 180, 90],
     codes = [''EPSG:4326'',
              ''urn:ogc:def:crs:EPSG::4326'',
              ''urn:ogc:def:crs:OGC:1.3:CRS84'',
              ''http://www.opengis.net/def/crs/OGC/1.3/CRS84''],
     units = ''d'',
     metersPerUnit = Some 111319.49079327358,
     axisOrientation = Some ''neu''\<rparr>"

definition proj32627 :: crs_definition where
  "proj32627 = \<lparr>
     def = ''+proj=utm +zone=27 +ellps=WGS84 +datum=WGS84 +units=m +no_defs'',
     extent = [166021.4431, 0.0000, 833978.5569, 9329005.1825],
     codes = [''EPSG:32627'',
              ''urn:ogc:def:crs:EPSG::32627'',
              ''http://www.opengis.net/gml/srs/epsg.xml#32627''],
     units = ''m'',
     metersPerUnit = None,
     axisOrientation = None\<rparr>"

definition proj32628 :: crs_definition where
  "proj32628 = \<lparr>
     def = ''+proj=utm +zone=28 +ellps=WGS84 +datum=WGS84 +units=m +no_defs'',
     extent = [166021.44317933178, 0, 833978.5568206678, 9329005.18301614],
     codes = [''EPSG:32628'',
              ''urn:ogc:def:crs:EPSG::32628'',
              ''http://www.opengis.net/gml/srs/epsg.xml#32628''],
     units = ''m'',
     metersPerUnit = None,
     axisOrientation = None\<rparr>"

definition proj32629 :: crs_definition where
  "proj32629 = \<lparr>
     def = ''+proj=utm +zone=29 +ellps=WGS84 +datum=WGS84 +units=m +no_defs'',
     extent = [166021.4431, 0.0000, 833978.5569, 9329005.1825],
     codes = [''EPSG:32629'',
              ''urn:ogc:def:crs:EPSG::32629'',
              ''http://www.opengis.net/gml/srs/epsg.xml#32629''],
     units = ''m'',
     metersPerUnit = None,
     axisOrientation = None\<rparr>"

definition proj32630 :: crs_definition where
  "proj32630 = \<lparr>
     def = ''+proj=utm +zone=30 +ellps=WGS84 +datum=WGS84 +units=m +no_defs'',
     extent = [166021.4431, 0.0000, 833978.5569, 9329005.1825],
     codes = [''EPSG:32630'',
              ''urn:ogc:def:crs:EPSG::32630'',
              ''http://www.opengis.net/gml/srs/epsg.xml#32630''],
     units = ''m'',
     metersPerUnit = None,
     axisOrientation = None\<rparr>"

definition proj32631 :: crs_definition where
  "proj32631 = \<lparr>
     def = ''+proj=utm +zone=31 +ellps=WGS84 +datum=WGS84 +units=m +no_defs'',
     extent = [166021.4431, 0.0000, 833978.5569, 9329005.1825],
     codes = [''EPSG:32631'',
              ''urn:ogc:def:crs:EPSG::32631'',
              ''http://www.opengis.net/gml/srs/epsg.xml#32631''],
     units = ''m'',
     metersPerUnit = None,
     axisOrientation = None\<rparr>"

definition proj4081 :: crs_definition where
  "proj4081 = \<lparr>
     def = ''+proj=longlat +ellps=GRS80 +towgs84=0,0,0,0,0,0,0 +no_defs'',
     extent = [-21.93, 24.6, -11.75, 32.76],
     codes = [''EPSG:4081'',
              ''urn:ogc:def:crs:EPSG::4081'',
              ''http://www.opengis.net/gml/srs/epsg.xml#4081''],
     units = ''d'',
     metersPerUnit = Some 111319.49079327358,
     axisOrientation = None\<rparr>"

definition proj4082 :: crs_definition where
  "proj4082 = \<lparr>
     def = ''+proj=utm +zone=27 +ellps=GRS80 +towgs84=0,0,0,0,0,0,0 +units=m +no_defs'',
     extent = [405849.71, 2720975.60, 1367994.77, 3662797.15],
     codes = [''EPSG:4082'',
              ''urn:ogc:def:crs:EPSG::4082'',
              ''http://www.opengis.net/gml/srs/epsg.xml#4082''],
     units = ''m'',
     metersPerUnit = None,
     axisOrientation = None\<rparr>"

definition proj4083 :: crs_definition where
  "proj4083 = \<lparr>
     def = ''+proj=utm +zone=28 +ellps=GRS80 +towgs84=0,0,0,0,0,0,0 +units=m +no_defs '',
     extent = [-202677.94, 2738405.48, 804488.92, 3629357.10],
     codes = [''EPSG:4083'',
              ''urn:ogc:def:crs:EPSG::4083'',
              ''http://www.opengis.net/gml/srs/epsg.xml#4083''],
     units = ''m'',
     metersPerUnit = None,
     axisOrientation = None\<rparr>"

definition proj3395 :: crs_definition where
  "proj3395 = \<lparr>
     def = ''+proj=merc +ellps=WGS84 +datum=WGS84 +units=m +no_defs'',
     extent = [-20026376.39, 15496570.74, 20026376.39, 18764656.23],
     codes = [''EPSG:3395'',
              ''urn:ogc:def:crs:EPSG::3395'',
              ''http://www.opengis.net/gml/srs/epsg.xml#3395''],
     units = ''m'',
     metersPerUnit = None,
     axisOrientation = None\<rparr>"

definition projections :: "crs_definition list" where
  "projections = [
     proj4326,
     proj32627,
     proj32628,
     proj32629,
     proj32630,
     proj32631,
     proj4258,
     proj25829,
     proj25828,
     proj25830,
     proj25831,
     proj4230,
     proj23028,
     proj23029,
     proj23030,
     proj23031,
     proj4081,
     proj4082,
     proj4083,
     proj3395]"

text \<open>
  The module registers the catalogue once, when it is loaded. The projections that the
  toolkit holds from the start are left out of \<open>registered\<close>: a code of the catalogue
  resolves to the catalogue's metadata whatever the cache held before. \<open>register(proj4)\<close>,
  which the module calls next, adds projections only for codes that the cache does not
  hold yet.
\<close>

definition registered :: registry where
  "registered = addProjections projections empty_registry"

section \<open>Geometries\<close>

text \<open>
  The typed geometries of the mapping toolkit, one constructor per value of \<open>getType()\<close>;
  the constructor names are the type tags the source switches on. A circle has a centre
  and a radius.
\<close>

datatype geometry =
    Point coordinate
  | LineString "coordinate list"
  | LinearRing "coordinate list"
  | Polygon "coordinate list list"
  | MultiPoint "coordinate list"
  | MultiLineString "coordinate list list"
  | MultiPolygon "coordinate list list list"
  | GeometryCollection "geometry list"
  | Circle coordinate real

definition getType :: "geometry \<Rightarrow> string" where
  "getType g = (case g of
      Point _ \<Rightarrow> ''Point''
    | LineString _ \<Rightarrow> ''LineString''
    | LinearRing _ \<Rightarrow> ''LinearRing''
    | Polygon _ \<Rightarrow> ''Polygon''
    | MultiPoint _ \<Rightarrow> ''MultiPoint''
    | MultiLineString _ \<Rightarrow> ''MultiLineString''
    | MultiPolygon _ \<Rightarrow> ''MultiPolygon''
    | GeometryCollection _ \<Rightarrow> ''GeometryCollection''
    | Circle _ _ \<Rightarrow> ''Circle'')"

text \<open>
  A tiled render feature, with the fields its getters return: \<open>getType\<close>,
  \<open>getFlatCoordinates\<close>, \<open>getEnds\<close>, \<open>getEndss\<close>, \<open>getGeometries\<close>,
  \<open>getFlatInteriorPoint\<close>, \<open>getProperties\<close> and \<open>getId\<close>.
\<close>

record render_feature =
  rf_type :: string
  rf_flatCoordinates :: "real list"
  rf_ends :: "nat list"
  rf_endss :: "nat list list"
  rf_geometries :: "geometry list"
  rf_flatInteriorPoint :: "real list"
  rf_properties :: "(string \<times> string) list"
  rf_id :: "string option"

text \<open>
  The interior point of a polygon and the interior points of a multi-polygon are computed
  by the toolkit (\<open>getInteriorPoint\<close> gives a Point, \<open>getInteriorPoints\<close> a MultiPoint);
  the centroid routines only recurse on what they return, so both are parameters.
\<close>

record ol_ops =
  getInteriorPoint :: "coordinate list list \<Rightarrow> coordinate"
  getInteriorPoints :: "coordinate list list list \<Rightarrow> coordinate list"

section \<open>Centroid engine\<close>

text \<open>
  What \<open>Utils.getCentroid\<close> is called with: nothing (\<open>null\<close> or \<open>undefined\<close>), a tiled
  render feature, or a typed geometry; and what it returns: \<open>null\<close>, \<open>undefined\<close>, a
  coordinate, or the render feature it was given.
\<close>

datatype centroid_input = NullOrUndefined | Tiled render_feature | Typed geometry

datatype centroid_value = Null | Undefined | Coord coordinate | SameObject render_feature

definition element_or_undefined :: "geometry list \<Rightarrow> nat \<Rightarrow> centroid_input" where
  "element_or_undefined gs i = (case js_index gs i of None \<Rightarrow> NullOrUndefined | Some g \<Rightarrow> Typed g)"

definition coordinate_or_undefined :: "coordinate list \<Rightarrow> nat \<Rightarrow> centroid_value" where
  "coordinate_or_undefined cs i = (case js_index cs i of None \<Rightarrow> Undefined | Some c \<Rightarrow> Coord c)"

fun depth :: "geometry \<Rightarrow> nat" where
  "depth (Polygon _) = 1"
| "depth (MultiPoint _) = 1"
| "depth (MultiLineString _) = 1"
| "depth (MultiPolygon _) = 2"
| "depth (GeometryCollection gs) = Suc (sum_list (map depth gs))"
| "depth _ = 0"

fun input_depth :: "centroid_input \<Rightarrow> nat" where
  "input_depth (Typed g) = depth g"
| "input_depth _ = 0"

lemma depth_element_Point: "input_depth (element_or_undefined (map Point cs) i) = 0"
  by (simp add: element_or_undefined_def js_index_def)

lemma depth_element_LineString: "input_depth (element_or_undefined (map LineString ls) i) = 0"
  by (simp add: element_or_undefined_def js_index_def)

text \<open>
  \<open>Utils.getCentroid\<close>: the \<open>switch\<close> on \<open>geometry.getType()\<close> has no case for a
  geometry collection, which falls to \<open>default: return null\<close>.
\<close>

function getCentroid :: "ol_ops \<Rightarrow> centroid_input \<Rightarrow> centroid_value" where
  "getCentroid ops NullOrUndefined = Null"
| "getCentroid ops (Tiled rf) = SameObject rf"
| "getCentroid ops (Typed (Point c)) = Coord c"
| "getCentroid ops (Typed (LineString coordinates)) =
     coordinate_or_undefined coordinates (medianIdx (length coordinates))"
| "getCentroid ops (Typed (LinearRing coordinates)) =
     coordinate_or_undefined coordinates (medianIdx (length coordinates))"
| "getCentroid ops (Typed (Polygon rings)) =
     getCentroid ops (Typed (Point (getInteriorPoint ops rings)))"
| "getCentroid ops (Typed (MultiPoint cs)) =
     (let points = map Point cs
      in getCentroid ops (element_or_undefined points (medianIdx (length points))))"
| "getCentroid ops (Typed (MultiLineString ls)) =
     (let lineStrings = map LineString ls
      in getCentroid ops (element_or_undefined lineStrings (medianIdx (length lineStrings))))"
| "getCentroid ops (Typed (MultiPolygon ps)) =
     getCentroid ops (Typed (MultiPoint (getInteriorPoints ops ps)))"
| "getCentroid ops (Typed (Circle c r)) = Coord c"
| "getCentroid ops (Typed (GeometryCollection gs)) = Null"
  by pat_completeness auto
termination
  by (relation "measure (\<lambda>(ops, g). input_depth g)")
     (simp_all add: depth_element_Point depth_element_LineString)

text \<open>
  Modelled from the spec: the constants of \<open>M/geom/WKT\<close>, which is not among the sources,
  are the type tags under which the specification lists the geometry variants.
\<close>

definition WKT_POINT :: string where "WKT_POINT = ''Point''"
definition WKT_LINE_STRING :: string where "WKT_LINE_STRING = ''LineString''"
definition WKT_LINEAR_RING :: string where "WKT_LINEAR_RING = ''LinearRing''"
definition WKT_POLYGON :: string where "WKT_POLYGON = ''Polygon''"
definition WKT_MULTI_POINT :: string where "WKT_MULTI_POINT = ''MultiPoint''"
definition WKT_MULTI_LINE_STRING :: string where "WKT_MULTI_LINE_STRING = ''MultiLineString''"
definition WKT_MULTI_POLYGON :: string where "WKT_MULTI_POLYGON = ''MultiPolygon''"
definition WKT_CIRCLE :: string where "WKT_CIRCLE = ''Circle''"
definition WKT_GEOMETRY_COLLECTION :: string where
  "WKT_GEOMETRY_COLLECTION = ''GeometryCollection''"

text \<open>
  \<open>Utils.getCentroidCoordinate\<close>: the same dispatch as an \<open>if\<close> chain of tests
  \<open>geometry.getType() === WKT.X\<close>, with a branch for geometry collections. Each test
  selects one constructor (\<open>getType_is_WKT\<close> below), so the chain is written as a match
  on the constructor. The function calls \<open>geometry.getType()\<close> first, so an \<open>undefined\<close>
  element raises.
\<close>

lemma depth_member: "g \<in> set gs \<Longrightarrow> depth g \<le> sum_list (map depth gs)"
  by (induction gs) auto

function getCentroidCoordinate :: "ol_ops \<Rightarrow> geometry \<Rightarrow> js_abort + centroid_value" where
  "getCentroidCoordinate ops (Point c) = Inr (Coord c)"
| "getCentroidCoordinate ops (LineString coordinates) =
     Inr (coordinate_or_undefined coordinates (medianIdx (length coordinates)))"
| "getCentroidCoordinate ops (LinearRing coordinates) =
     Inr (coordinate_or_undefined coordinates (medianIdx (length coordinates)))"
| "getCentroidCoordinate ops (Polygon rings) =
     getCentroidCoordinate ops (Point (getInteriorPoint ops rings))"
| "getCentroidCoordinate ops (MultiPoint cs) =
     (if medianIdx (length cs) < length cs
      then getCentroidCoordinate ops (Point (cs ! medianIdx (length cs)))
      else Inl TypeError)"
| "getCentroidCoordinate ops (MultiLineString ls) =
     (if medianIdx (length ls) < length ls
      then getCentroidCoordinate ops (LineString (ls ! medianIdx (length ls)))
      else Inl TypeError)"
| "getCentroidCoordinate ops (MultiPolygon ps) =
     getCentroidCoordinate ops (MultiPoint (getInteriorPoints ops ps))"
| "getCentroidCoordinate ops (Circle c r) = Inr (Coord c)"
| "getCentroidCoordinate ops (GeometryCollection geometries) =
     (if medianIdx (length geometries) < length geometries
      then getCentroidCoordinate ops (geometries ! medianIdx (length geometries))
      else Inl TypeError)"
  by pat_completeness auto
termination
proof (relation "measure (\<lambda>(ops, g). depth g)", goal_cases)
  case (6 ops geometries)
  then have "geometries ! medianIdx (length geometries) \<in> set geometries"
    by simp
  then have "depth (geometries ! medianIdx (length geometries)) \<le> sum_list (map depth geometries)"
    by (rule depth_member)
  then show ?case by simp
qed simp_all

lemma getType_is_WKT:
  "(getType g = WKT_POINT) = (\<exists>c. g = Point c)"
  "(getType g = WKT_LINE_STRING) = (\<exists>cs. g = LineString cs)"
  "(getType g = WKT_LINEAR_RING) = (\<exists>cs. g = LinearRing cs)"
  "(getType g = WKT_POLYGON) = (\<exists>rings. g = Polygon rings)"
  "(getType g = WKT_MULTI_POINT) = (\<exists>cs. g = MultiPoint cs)"
  "(getType g = WKT_MULTI_LINE_STRING) = (\<exists>ls. g = MultiLineString ls)"
  "(getType g = WKT_MULTI_POLYGON) = (\<exists>ps. g = MultiPolygon ps)"
  "(getType g = WKT_CIRCLE) = (\<exists>c r. g = Circle c r)"
  "(getType g = WKT_GEOMETRY_COLLECTION) = (\<exists>gs. g = GeometryCollection gs)"
  by (cases g; simp add: getType_def WKT_POINT_def WKT_LINE_STRING_def WKT_LINEAR_RING_def
        WKT_POLYGON_def WKT_MULTI_POINT_def WKT_MULTI_LINE_STRING_def WKT_MULTI_POLYGON_def
        WKT_CIRCLE_def WKT_GEOMETRY_COLLECTION_def)+

lemma medianIdx_div: "medianIdx n = n div 2"
proof -
  have "\<lfloor>real n / 2\<rfloor> = int (n div 2)"
    using floor_divide_of_nat_eq [of n 2, where ?'a = real] by simp
  then show ?thesis by (simp add: medianIdx_def)
qed

section \<open>Extent engine\<close>

text \<open>
  Relational operators on array elements that may be \<open>undefined\<close>: a comparison with
  \<open>undefined\<close> is false.
\<close>

definition js_le :: "real option \<Rightarrow> real option \<Rightarrow> bool" where
  "js_le a b = (case (a, b) of (Some x, Some y) \<Rightarrow> x \<le> y | _ \<Rightarrow> False)"


text \<open>
  \<open>Projection.getMetersPerUnit\<close> of the toolkit: the value given to the constructor or,
  when that is absent or zero, the toolkit's entry for the unit (\<open>undefined\<close> for a unit
  it does not know).
\<close>

definition METERS_PER_UNIT :: "string \<Rightarrow> real option" where
  "METERS_PER_UNIT u =
     (if u = ''radians'' then Some (6370997 / (2 * pi))
      else if u = ''degrees'' then Some (2 * pi * 6370997 / 360)
      else if u = ''ft'' then Some 0.3048
      else if u = ''m'' then Some 1
      else if u = ''us-ft'' then Some (1200 / 3937)
      else None)"

definition getMetersPerUnit :: "projection \<Rightarrow> real option" where
  "getMetersPerUnit p =
     (case proj_metersPerUnit p of
        Some m \<Rightarrow> if m \<noteq> 0 then Some m else METERS_PER_UNIT (proj_units p)
      | None \<Rightarrow> METERS_PER_UNIT (proj_units p))"








text \<open>
  The source CRS argument of \<open>transformExtent\<close> is a code or an already resolved
  projection: \<open>isString(srcProj) ? getProj(srcProj) : srcProj\<close>.
\<close>

datatype projection_like = Code string | Resolved projection

definition resolve :: "registry \<Rightarrow> projection_like \<Rightarrow> projection option" where
  "resolve r p = (case p of Code c \<Rightarrow> getProj r c | Resolved q \<Rightarrow> Some q)"

text \<open>
  The callback of \<open>extent.every\<close>: at an index below 2 the ordinate must be at most the
  source extent's, at the other indices at least the source extent's.
\<close>

definition isProjExtent :: "real list \<Rightarrow> nat \<times> real \<Rightarrow> bool" where
  "isProjExtent srcProjExtent ic =
     (case ic of (i, coord) \<Rightarrow>
        if i < 2 then js_le (Some coord) (js_index srcProjExtent i)
        else js_le (js_index srcProjExtent i) (Some coord))"

text \<open>
  \<open>Utils.transformExtent\<close>. The numeric transform of the toolkit (\<open>transformExtent\<close> of
  \<open>ol/proj\<close>) is a parameter. A projection without extent has \<open>getExtent() = null\<close>, and
  reading \<open>srcProjExtent[i]\<close> then raises as soon as the callback runs.
\<close>

definition transformExtent ::
    "(real list \<Rightarrow> projection \<Rightarrow> projection option \<Rightarrow> js_abort + real list option)
      \<Rightarrow> registry \<Rightarrow> real list \<Rightarrow> projection_like \<Rightarrow> projection_like
      \<Rightarrow> js_abort + real list option" where
  "transformExtent olTransformExtent r ext srcProj tgtProj =
     (let olSrcProj = resolve r srcProj;
          olTgtProj = resolve r tgtProj
      in case olSrcProj of
           None \<Rightarrow> Inl TypeError
         | Some sp \<Rightarrow>
             (case proj_extent sp of
                None \<Rightarrow>
                  (if ext = []
                   then (case olTgtProj of None \<Rightarrow> Inl TypeError | Some tp \<Rightarrow> Inr (proj_extent tp))
                   else Inl TypeError)
              | Some srcProjExtent \<Rightarrow>
                  (let sameSrcProjExtent = list_all (isProjExtent srcProjExtent) (enumerate 0 ext)
                   in if sameSrcProjExtent
                      then (case olTgtProj of
                              None \<Rightarrow> Inl TypeError
                            | Some tp \<Rightarrow> Inr (proj_extent tp))
                      else olTransformExtent ext sp olTgtProj)))"

section \<open>JavaScript numbers\<close>

text \<open>
  The scale calculator truncates what it has computed, so its result turns on how the
  arithmetic rounds; there a JavaScript number is an IEEE 754 double: \<open>NaN\<close>, an
  infinity, or a finite value, held as the real number it stands for. The two zeros are
  not told apart: a zero divisor is taken as \<open>+0\<close>, which decides no more than the
  sign of the infinity that results.

  \<open>rnd\<close> rounds a real number to the nearest double, a tie to the even significand: the
  doubles around \<open>x\<close> are the multiples of \<open>2 ^ (e - 52)\<close>, where \<open>e\<close> is the binary
  exponent of \<open>x\<close>, not below \<open>-1022\<close> (the subnormal range); a result of magnitude
  \<open>2 ^ 1024\<close> or more is an infinity.
\<close>

datatype jsnum = NaN | PosInf | NegInf | Fin real

definition expo :: "real \<Rightarrow> int" where
  "expo x = \<lfloor>log 2 \<bar>x\<bar>\<rfloor>"

definition rne :: "real \<Rightarrow> int" where
  "rne x = (let f = \<lfloor>x\<rfloor>; d = x - of_int f
            in if d < 1 / 2 then f
               else if 1 / 2 < d then f + 1
               else if even f then f else f + 1)"

definition ulp_at :: "real \<Rightarrow> real" where
  "ulp_at x = 2 powi (max (expo x) (- 1022) - 52)"

definition rnd :: "real \<Rightarrow> jsnum" where
  "rnd x = (if x = 0 then Fin 0
            else (let y = of_int (rne (x / ulp_at x)) * ulp_at x
                  in if 2 powi 1024 \<le> \<bar>y\<bar> then (if 0 < x then PosInf else NegInf)
                     else Fin y))"

text \<open>The finite doubles are the values that \<open>rnd\<close> takes.\<close>

definition double :: "real \<Rightarrow> bool" where
  "double s \<longleftrightarrow> (\<exists>x. rnd x = Fin s)"

text \<open>
  The operators \<open>*\<close>, \<open>/\<close> and \<open>-\<close> round the exact result; with an infinity or a
  zero divisor the sign decides, and \<open>NaN\<close> spreads. \<open><=\<close> is false on \<open>NaN\<close>.
\<close>

definition jsign :: "jsnum \<Rightarrow> real" where
  "jsign v = (case v of Fin x \<Rightarrow> sgn x | PosInf \<Rightarrow> 1 | NegInf \<Rightarrow> - 1 | NaN \<Rightarrow> 0)"

definition signed_infinity :: "real \<Rightarrow> jsnum" where
  "signed_infinity r = (if 0 < r then PosInf else if r < 0 then NegInf else NaN)"

fun fmul :: "jsnum \<Rightarrow> jsnum \<Rightarrow> jsnum" where
  "fmul (Fin a) (Fin b) = rnd (a * b)"
| "fmul NaN b = NaN"
| "fmul a NaN = NaN"
| "fmul a b = signed_infinity (jsign a * jsign b)"

fun fdiv :: "jsnum \<Rightarrow> jsnum \<Rightarrow> jsnum" where
  "fdiv (Fin a) (Fin b) = (if b = 0 then signed_infinity (sgn a) else rnd (a / b))"
| "fdiv NaN b = NaN"
| "fdiv a NaN = NaN"
| "fdiv (Fin a) b = Fin 0"
| "fdiv a (Fin b) = signed_infinity (jsign a * (if b < 0 then - 1 else 1))"
| "fdiv a b = NaN"

fun fsub :: "jsnum \<Rightarrow> jsnum \<Rightarrow> jsnum" where
  "fsub (Fin a) (Fin b) = rnd (a - b)"
| "fsub NaN b = NaN"
| "fsub a NaN = NaN"
| "fsub PosInf PosInf = NaN"
| "fsub NegInf NegInf = NaN"
| "fsub PosInf b = PosInf"
| "fsub NegInf b = NegInf"
| "fsub a PosInf = NegInf"
| "fsub a NegInf = PosInf"

fun fle :: "jsnum \<Rightarrow> jsnum \<Rightarrow> bool" where
  "fle (Fin a) (Fin b) = (a \<le> b)"
| "fle NaN b = False"
| "fle a NaN = False"
| "fle NegInf b = True"
| "fle a PosInf = True"
| "fle a b = False"

text \<open>
  \<open>Math.round\<close> gives the nearest integer, a half upwards, and \<open>Math.trunc\<close> drops the
  fraction; both are exact, and leave \<open>NaN\<close> and the infinities as they are.
\<close>

fun Math_round :: "jsnum \<Rightarrow> jsnum" where
  "Math_round (Fin x) = Fin (of_int \<lfloor>x + 1 / 2\<rfloor>)"
| "Math_round v = v"

fun Math_trunc :: "jsnum \<Rightarrow> jsnum" where
  "Math_trunc (Fin x) = Fin (of_int (if x < 0 then \<lceil>x\<rceil> else \<lfloor>x\<rfloor>))"
| "Math_trunc v = v"

text \<open>An array element used as an operand: \<open>undefined\<close> becomes \<open>NaN\<close>.\<close>

definition number_at :: "jsnum list \<Rightarrow> nat \<Rightarrow> jsnum" where
  "number_at xs i = (case js_index xs i of None \<Rightarrow> NaN | Some v \<Rightarrow> v)"

section \<open>Scale calculator\<close>

text \<open>
  What \<open>getWMTSScale\<close> reads from the map: the code of its projection, the size of the
  viewport in pixels (\<open>undefined\<close> before the map is rendered) and the view's extent for
  a size.
\<close>

record wmts_map =
  map_projection_code :: string
  map_size :: "jsnum list option"
  map_calculateExtent :: "jsnum list \<Rightarrow> jsnum list"

text \<open>
  \<open>Utils.getWMTSScale\<close>, in two parts. \<open>scaleOf\<close> is the expression
  \<open>(((mpu * ang) / pix) * 1000) / 0.28\<close>; the literals 1000, 950000 and 1000000 are
  doubles as they stand, \<open>0.28\<close> is the double nearest to it. \<open>roundedScale\<close> is the rest
  of the function: the rounding when \<open>exact\<close> is not set, and \<open>Math.trunc\<close>. The meters
  per unit of the projection are read as a double.
\<close>

definition scaleOf :: "jsnum \<Rightarrow> jsnum \<Rightarrow> jsnum \<Rightarrow> jsnum" where
  "scaleOf mpu ang pix = fdiv (fmul (fdiv (fmul mpu ang) pix) (Fin 1000)) (rnd 0.28)"

definition roundedScale :: "jsnum \<Rightarrow> bool \<Rightarrow> jsnum" where
  "roundedScale scale exact =
     Math_trunc
       (if \<not> exact then
          (if fle (Fin 1000) scale \<and> fle scale (Fin 950000)
           then fmul (Math_round (fdiv scale (Fin 1000))) (Fin 1000)
           else if fle (Fin 950000) scale
           then fmul (Math_round (fdiv scale (Fin 1000000))) (Fin 1000000)
           else Math_round scale)
        else scale)"

definition getWMTSScale :: "registry \<Rightarrow> wmts_map \<Rightarrow> bool \<Rightarrow> js_abort + jsnum" where
  "getWMTSScale r m exact =
     (case getProj r (map_projection_code m) of
        None \<Rightarrow> Inl TypeError
      | Some olProj \<Rightarrow>
          (let mpu = (case getMetersPerUnit olProj of None \<Rightarrow> NaN | Some v \<Rightarrow> rnd v)
           in case map_size m of
                None \<Rightarrow> Inl TypeError
              | Some mapSize \<Rightarrow>
                  (let pix = number_at mapSize 0;
                       pix2 = map_calculateExtent m mapSize;
                       ang = fsub (number_at pix2 2) (number_at pix2 0);
                       scale = scaleOf mpu ang pix
                   in Inr (roundedScale scale exact))))"

section \<open>Resolution generator\<close>

text \<open>
  \<open>getWidth\<close> of \<open>ol/extent\<close>, \<open>extent[2] - extent[0]\<close>: on \<open>undefined\<close> or \<open>null\<close> the
  indexing raises; with an ordinate missing the difference is \<open>NaN\<close>, here \<open>None\<close>.
\<close>

definition getWidth :: "real list option \<Rightarrow> js_abort + real option" where
  "getWidth e =
     (case e of
        None \<Rightarrow> Inl TypeError
      | Some xs \<Rightarrow>
          (case (js_index xs 2, js_index xs 0) of
             (Some x2, Some x0) \<Rightarrow> Inr (Some (x2 - x0))
           | _ \<Rightarrow> Inr None))"

text \<open>
  \<open>Utils.generateResolutions\<close>. \<open>newExtent\<close>, \<open>newMinZoom\<close> and \<open>newMaxZoom\<close> are assigned
  only where the argument is absent and stay \<open>undefined\<close> (here \<open>None\<close>) otherwise. With
  an \<open>undefined\<close> bound \<open>zoomLevels\<close> is \<open>NaN\<close>, the loop test \<open>i < zoomLevels\<close> is false
  at once and the result is the empty array.
\<close>

definition defaultMaxZoom :: real where
  "defaultMaxZoom = 20"

definition generateResolutions ::
    "projection \<Rightarrow> real list option \<Rightarrow> real option \<Rightarrow> real option \<Rightarrow> js_abort + real list" where
  "generateResolutions projection ext minZoom maxZoom =
     (let newExtent = (if isNullOrEmpty_array ext then proj_extent projection else None)
      in case getWidth newExtent of
           Inl e \<Rightarrow> Inl e
         | Inr w \<Rightarrow>
             (let tileSize = map_option (\<lambda>w. w / 256) w;
                  newMinZoom = (if isNullOrEmpty minZoom then Some 0 else None);
                  newMaxZoom = (if isNullOrEmpty maxZoom then Some defaultMaxZoom else None)
              in case (newMaxZoom, newMinZoom) of
                   (Some mx, Some mn) \<Rightarrow>
                     (let zoomLevels = mx - mn;
                          levels = [0 ..< nat \<lceil>zoomLevels\<rceil>]
                      in if levels = [] then Inr []
                         else (case tileSize of
                                 None \<Rightarrow> Inl NonFinite
                               | Some sz \<Rightarrow> Inr (map (\<lambda>i. sz / 2 ^ i) levels)))
                 | _ \<Rightarrow> Inr []))"

section \<open>Geometry decoder\<close>

text \<open>
  What \<open>getGeometryFromRenderFeature\<close> builds: the toolkit constructor it calls with the
  arguments it passes, or \<open>null\<close> for a type tag it does not know.
\<close>

datatype decoded_geometry =
    NewPoint "real list"
  | NewLineString "real list"
  | NewLinearRing "real list"
  | NewPolygon "real list"
  | NewMultiPoint "real list"
  | NewMultiLineString "real list" "nat list"
  | NewMultiPolygon "real list" "nat list list"
  | NewGeometryCollection "geometry list"
  | NewCircle "real list"
  | NullGeometry

definition getGeometryFromRenderFeature :: "render_feature \<Rightarrow> decoded_geometry" where
  "getGeometryFromRenderFeature olRenderFeature =
     (let coordinates = rf_flatCoordinates olRenderFeature;
          ends = rf_ends olRenderFeature;
          endss = rf_endss olRenderFeature;
          t = rf_type olRenderFeature
      in if t = ''Point'' then NewPoint coordinates
         else if t = ''LineString'' then NewLineString coordinates
         else if t = ''LinearRing'' then NewLinearRing coordinates
         else if t = ''Polygon'' then NewPolygon coordinates
         else if t = ''MultiPoint'' then NewMultiPoint coordinates
         else if t = ''MultiLineString'' then NewMultiLineString coordinates ends
         else if t = ''MultiPolygon'' then NewMultiPolygon coordinates endss
         else if t = ''GeometryCollection''
           then NewGeometryCollection (rf_geometries olRenderFeature)
         else if t = ''Circle'' then NewCircle (rf_flatInteriorPoint olRenderFeature)
         else NullGeometry)"

text \<open>
  \<open>cloneOLRenderFeature\<close> builds a render feature from the type, copies of the flat
  coordinates and of the ends, the properties and the id of the original. As a value the
  clone equals the original; the copy matters to the caller, which transforms the clone
  in place.
\<close>

definition cloneOLRenderFeature :: "render_feature \<Rightarrow> render_feature" where
  "cloneOLRenderFeature olRenderFeature =
     olRenderFeature\<lparr>
       rf_type := rf_type olRenderFeature,
       rf_flatCoordinates := rf_flatCoordinates olRenderFeature,
       rf_ends := rf_ends olRenderFeature,
       rf_properties := rf_properties olRenderFeature,
       rf_id := rf_id olRenderFeature\<rparr>"

text \<open>The feature that \<open>olRenderFeature2olFeature\<close> builds.\<close>

record decoded_feature =
  df_id :: string
  df_properties :: "(string \<times> string) list"
  df_geometry :: "decoded_geometry option"

text \<open>
  \<open>Utils.olRenderFeature2olFeature\<close>. \<open>rfTransform\<close> is the toolkit's
  \<open>RenderFeature.transform(tileProjection, mapProjection)\<close>, which rewrites the flat
  coordinates of the feature it is called on; \<open>generatedId\<close> is what
  \<open>generateRandom('mapea_feature_')\<close> returns. \<open>getGeometry()\<close> of a render feature is
  the render feature. The first test names \<open>tileProjection\<close> on both sides of \<open>&&\<close>, as
  the source does.
\<close>

definition olRenderFeature2olFeature ::
    "(projection \<Rightarrow> projection option \<Rightarrow> render_feature \<Rightarrow> js_abort + render_feature)
      \<Rightarrow> string \<Rightarrow> render_feature option \<Rightarrow> projection option \<Rightarrow> projection option
      \<Rightarrow> js_abort + decoded_feature option" where
  "olRenderFeature2olFeature rfTransform generatedId olRenderFeature tileProjection mapProjection =
     (case olRenderFeature of
        None \<Rightarrow> Inr None
      | Some rf \<Rightarrow>
          (let ident = rf_id rf;
               properties = rf_properties rf;
               geometry =
                 (if isNullOrEmpty tileProjection \<and> isNullOrEmpty tileProjection
                  then Inr (Some (getGeometryFromRenderFeature rf))
                  else
                    (case tileProjection of
                       None \<Rightarrow> Inl TypeError
                     | Some tp \<Rightarrow>
                         (let tileExtent = proj_extent tp;
                              tileWorldExtent = proj_worldExtent tp
                          in if \<not> isNullOrEmpty_array tileExtent
                                \<and> \<not> isNullOrEmpty_array tileWorldExtent
                             then
                               (case rfTransform tp mapProjection (cloneOLRenderFeature rf) of
                                  Inl e \<Rightarrow> Inl e
                                | Inr clonedOLRenderFeature \<Rightarrow>
                                    Inr (Some (getGeometryFromRenderFeature clonedOLRenderFeature)))
                             else Inr None)))
           in case geometry of
                Inl e \<Rightarrow> Inl e
              | Inr g \<Rightarrow>
                  Inr (Some \<lparr>df_id = (if \<not> isNullOrEmpty_string ident then the ident
                                        else generatedId),
                             df_properties = properties,
                             df_geometry = g\<rparr>)))"

section \<open>GeoJSON reprojector\<close>

text \<open>
  The coordinates of a GeoJSON geometry are nested arrays, and the reprojector writes into
  arrays it was given, so arrays live in a store: a value is \<open>undefined\<close>, a number or
  a reference to an array, and the store maps references to the arrays' contents.
\<close>

datatype jsval = JUndefined | JNum real | JRef nat

record store =
  cells :: "nat \<rightharpoonup> jsval list"
  next_ref :: nat

definition alloc :: "jsval list \<Rightarrow> store \<Rightarrow> jsval \<times> store" where
  "alloc xs s = (JRef (next_ref s),
                 s\<lparr>cells := (cells s)(next_ref s \<mapsto> xs), next_ref := Suc (next_ref s)\<rparr>)"

text \<open>\<open>xs[i] = v\<close> on an array: in range it replaces, beyond the end the array grows.\<close>

definition js_array_set :: "jsval list \<Rightarrow> nat \<Rightarrow> jsval \<Rightarrow> jsval list" where
  "js_array_set xs i v =
     (if i < length xs then xs[i := v]
      else xs @ replicate (i - length xs) JUndefined @ [v])"

definition js_element :: "jsval list \<Rightarrow> nat \<Rightarrow> jsval" where
  "js_element xs i = (case js_index xs i of None \<Rightarrow> JUndefined | Some v \<Rightarrow> v)"

text \<open>
  \<open>getFullCoordinates\<close>: \<open>newCoordinates\<close> is the array \<open>oldCoordinates\<close> itself, not a
  copy; the two assignments write into it and it is returned. Assigning to an index of a
  number or of \<open>undefined\<close> raises (the module is in strict mode).
\<close>

definition getFullCoordinates ::
    "jsval \<Rightarrow> jsval list \<Rightarrow> store \<Rightarrow> js_abort + jsval \<times> store" where
  "getFullCoordinates oldCoordinates newXY s =
     (case oldCoordinates of
        JRef a \<Rightarrow>
          (case cells s a of
             None \<Rightarrow> Inl TypeError
           | Some xs \<Rightarrow>
               (let xs = js_array_set xs 0 (js_element newXY 0);
                    xs = js_array_set xs 1 (js_element newXY 1)
                in Inr (JRef a, s\<lparr>cells := (cells s)(a \<mapsto> xs)\<rparr>)))
      | _ \<Rightarrow> Inl TypeError)"

text \<open>
  \<open>getXY\<close>: a fresh array with the elements of the coordinate set, cut to two. A number
  has no \<open>length\<close>, so the copy stays empty; \<open>undefined.length\<close> raises.
\<close>

definition getXY :: "jsval \<Rightarrow> store \<Rightarrow> js_abort + jsval list" where
  "getXY coordinatesSet s =
     (case coordinatesSet of
        JRef a \<Rightarrow> (case cells s a of None \<Rightarrow> Inl TypeError | Some xs \<Rightarrow> Inr (take 2 xs))
      | JNum x \<Rightarrow> Inr []
      | JUndefined \<Rightarrow> Inl TypeError)"

text \<open>
  \<open>getTransformedCoordinates\<close>. \<open>getTransform\<close> of the toolkit is a parameter: for a
  pair of codes it gives the function on coordinate pairs, or nothing where the toolkit
  raises (a code it does not know).
\<close>

type_synonym transform_lookup = "string \<Rightarrow> string \<Rightarrow> (jsval list \<Rightarrow> jsval list) option"

definition getTransformedCoordinates ::
    "transform_lookup \<Rightarrow> string \<Rightarrow> jsval \<Rightarrow> store \<Rightarrow> js_abort + jsval \<times> store" where
  "getTransformedCoordinates getTransform codeProjection oldCoordinates s =
     (case getTransform codeProjection ''EPSG:4326'' of
        None \<Rightarrow> Inl TypeError
      | Some transformFunction \<Rightarrow>
          (case getXY oldCoordinates s of
             Inl e \<Rightarrow> Inl e
           | Inr xy \<Rightarrow> getFullCoordinates oldCoordinates (transformFunction xy) s))"

text \<open>
  The loops of \<open>geojsonTo4326\<close>: each runs over the elements of an array, hands every
  element to the level below and pushes the results onto a fresh array. The elements are
  taken from the array as it is when the loop starts: the outer arrays are not written
  to by the levels below unless an array contains itself, which parsed GeoJSON cannot.
\<close>

fun for_each ::
    "('a \<Rightarrow> store \<Rightarrow> js_abort + 'b \<times> store) \<Rightarrow> 'a list \<Rightarrow> store
      \<Rightarrow> js_abort + 'b list \<times> store" where
  "for_each f [] s = Inr ([], s)"
| "for_each f (x # xs) s =
     (case f x s of
        Inl e \<Rightarrow> Inl e
      | Inr (y, s') \<Rightarrow>
          (case for_each f xs s' of
             Inl e \<Rightarrow> Inl e
           | Inr (ys, s'') \<Rightarrow> Inr (y # ys, s'')))"

definition loop_over ::
    "(jsval \<Rightarrow> store \<Rightarrow> js_abort + jsval \<times> store) \<Rightarrow> jsval \<Rightarrow> store
      \<Rightarrow> js_abort + jsval \<times> store" where
  "loop_over f coordinates s =
     (case coordinates of
        JUndefined \<Rightarrow> Inl TypeError
      | JNum x \<Rightarrow> Inr (alloc [] s)
      | JRef a \<Rightarrow>
          (case cells s a of
             None \<Rightarrow> Inl TypeError
           | Some xs \<Rightarrow>
               (case for_each f xs s of
                  Inl e \<Rightarrow> Inl e
                | Inr (ys, s') \<Rightarrow> Inr (alloc ys s'))))"

text \<open>A GeoJSON feature: its property map and its geometry, a type tag with coordinates.\<close>

record geojson_feature =
  gj_properties :: "(string \<times> string) list"
  gj_geometry_type :: string
  gj_coordinates :: jsval

definition createGeoJSONFeature :: "geojson_feature \<Rightarrow> jsval \<Rightarrow> geojson_feature" where
  "createGeoJSONFeature previousFeature coordinates =
     previousFeature\<lparr>gj_geometry_type := gj_geometry_type previousFeature,
                      gj_coordinates := coordinates\<rparr>"

text \<open>The body of \<open>featuresAsJSON.forEach\<close>: the \<open>switch\<close> on the geometry type.\<close>

definition reprojectFeature ::
    "transform_lookup \<Rightarrow> string \<Rightarrow> geojson_feature \<Rightarrow> store
      \<Rightarrow> js_abort + geojson_feature \<times> store" where
  "reprojectFeature getTransform codeProjection featureAsJSON s =
     (let coordinates = gj_coordinates featureAsJSON;
          t = gj_geometry_type featureAsJSON;
          dot = getTransformedCoordinates getTransform codeProjection;
          newCoordinates =
            (if t = ''Point'' then dot coordinates s
             else if t = ''MultiPoint'' then loop_over dot coordinates s
             else if t = ''LineString'' then loop_over dot coordinates s
             else if t = ''MultiLineString'' then loop_over (loop_over dot) coordinates s
             else if t = ''Polygon'' then loop_over (loop_over dot) coordinates s
             else if t = ''MultiPolygon'' then loop_over (loop_over (loop_over dot)) coordinates s
             else Inr (alloc [] s))
      in case newCoordinates of
           Inl e \<Rightarrow> Inl e
         | Inr (c, s') \<Rightarrow> Inr (createGeoJSONFeature featureAsJSON c, s'))"

text \<open>
  \<open>geojsonTo4326\<close>: every feature in turn, the results collected in order. It takes the
  store in which the features' coordinate arrays live and returns the store it leaves.
\<close>

definition geojsonTo4326 ::
    "transform_lookup \<Rightarrow> geojson_feature list \<Rightarrow> string \<Rightarrow> store
      \<Rightarrow> js_abort + geojson_feature list \<times> store" where
  "geojsonTo4326 getTransform featuresAsJSON codeProjection s =
     for_each (reprojectFeature getTransform codeProjection) featuresAsJSON s"

section \<open>Notions used to state the properties\<close>


text \<open>\<open>k\<close> is a multiple of \<open>step\<close> nearest to \<open>x\<close>.\<close>

definition nearest_multiple :: "int \<Rightarrow> real \<Rightarrow> int \<Rightarrow> bool" where
  "nearest_multiple step x k \<longleftrightarrow> step dvd k \<and> \<bar>real_of_int k - x\<bar> \<le> real_of_int step / 2"

text \<open>\<open>k\<close> is \<open>x\<close> without its fraction: no further from zero than \<open>x\<close>, and less than 1 away.\<close>

definition integer_part :: "real \<Rightarrow> int \<Rightarrow> bool" where
  "integer_part x k \<longleftrightarrow> \<bar>real_of_int k\<bar> \<le> \<bar>x\<bar> \<and> \<bar>x - real_of_int k\<bar> < 1"

section \<open>Inputs used in the examples\<close>

text \<open>
  A tiled Point at \<open>(1, 2)\<close> and a tile CRS with an extent and a world extent; a
  transform to geographic coordinates that divides every number by ten; a store with one
  GeoJSON Point at \<open>(10, 20, 5)\<close>, and one with a LineString of two coordinates.
\<close>

definition tile_point :: render_feature where
  "tile_point = \<lparr>rf_type = ''Point'', rf_flatCoordinates = [1, 2], rf_ends = [],
     rf_endss = [], rf_geometries = [], rf_flatInteriorPoint = [],
     rf_properties = [], rf_id = Some ''a''\<rparr>"

definition tile_crs :: projection where
  "tile_crs = \<lparr>proj_code = ''EPSG:3857'', proj_extent = Some [0, 0, 4096, 4096],
     proj_units = ''tile-pixels'', proj_metersPerUnit = None, proj_axisOrientation = None,
     proj_worldExtent = Some [-180, -85, 180, 85]\<rparr>"

definition tenth :: "jsval list \<Rightarrow> jsval list" where
  "tenth xy = map (\<lambda>v. case v of JNum x \<Rightarrow> JNum (x / 10) | _ \<Rightarrow> v) xy"

definition point_store :: store where
  "point_store = \<lparr>cells = [0 \<mapsto> [JNum 10, JNum 20, JNum 5]], next_ref = 1\<rparr>"

definition point_feature :: geojson_feature where
  "point_feature = \<lparr>gj_properties = [], gj_geometry_type = ''Point'', gj_coordinates = JRef 0\<rparr>"

definition line_store :: store where
  "line_store = \<lparr>cells = [0 \<mapsto> [JRef 1, JRef 2], 1 \<mapsto> [JNum 10, JNum 20],
                            2 \<mapsto> [JNum 30, JNum 40]], next_ref = 3\<rparr>"

definition line_feature :: geojson_feature where
  "line_feature = \<lparr>gj_properties = [], gj_geometry_type = ''LineString'', gj_coordinates = JRef 0\<rparr>"

text \<open>
  A map in \<open>EPSG:25830\<close> (meters) whose viewport is \<open>width\<close> pixels wide and whose view
  runs from 0 to \<open>x2\<close>.
\<close>

definition wmts_view :: "jsnum \<Rightarrow> jsnum \<Rightarrow> wmts_map" where
  "wmts_view width x2 =
     \<lparr>map_projection_code = ''EPSG:25830'', map_size = Some [width, Fin 500],
      map_calculateExtent = (\<lambda>sz. [Fin 0, Fin 0, x2, Fin 70])\<rparr>"

section \<open>Properties of the centroid engine\<close>

text \<open>
  Claim C9. For a LineString or LinearRing with \<open>n \<ge> 1\<close> coordinates the centroid is the
  coordinate at index \<open>n div 2\<close> (the floor of \<open>n / 2\<close>), from \<open>getCentroid\<close> and from
  \<open>getCentroidCoordinate\<close> alike; the five-point line of the specification gives \<open>[2, 2]\<close>.
\<close>

theorem centroid_line_is_median_coordinate:
  assumes "1 \<le> length cs"
  shows "getCentroid ops (Typed (LineString cs)) = Coord (cs ! (length cs div 2))
       \<and> getCentroid ops (Typed (LinearRing cs)) = Coord (cs ! (length cs div 2))
       \<and> getCentroidCoordinate ops (LineString cs) = Inr (Coord (cs ! (length cs div 2)))
       \<and> getCentroidCoordinate ops (LinearRing cs) = Inr (Coord (cs ! (length cs div 2)))"
proof -
  from assms have "length cs div 2 < length cs" by simp
  then have "coordinate_or_undefined cs (medianIdx (length cs)) = Coord (cs ! (length cs div 2))"
    by (simp add: coordinate_or_undefined_def js_index_def medianIdx_div)
  then show ?thesis by simp
qed

theorem centroid_line_is_median_coordinate_witness:
  "1 \<le> length [[0, 0], [1, 1], [2, 2], [3, 3], [4, 4 :: real]]
   \<and> getCentroid \<lparr>getInteriorPoint = (\<lambda>rings. []), getInteriorPoints = (\<lambda>ps. [])\<rparr>
         (Typed (LineString [[0, 0], [1, 1], [2, 2], [3, 3], [4, 4]])) = Coord [2, 2]"
  using centroid_line_is_median_coordinate
    [of "[[0, 0], [1, 1], [2, 2], [3, 3], [4, 4]]"
        "\<lparr>getInteriorPoint = (\<lambda>rings. []), getInteriorPoints = (\<lambda>ps. [])\<rparr>"]
  by simp

text \<open>
  Claim C10. Given a tiled render feature, \<open>getCentroid\<close> returns that very object: not
  a coordinate, not \<open>null\<close> and not \<open>undefined\<close>.
\<close>

theorem centroid_of_render_feature_is_the_feature:
  "getCentroid ops (Tiled rf) = SameObject rf
   \<and> getCentroid ops (Tiled rf) \<noteq> Null
   \<and> getCentroid ops (Tiled rf) \<noteq> Undefined
   \<and> (\<nexists>c. getCentroid ops (Tiled rf) = Coord c)"
  by simp

text \<open>
  Claim C8. The claim asks that the centroid of a non-empty geometry collection be the
  centroid of its member at index \<open>n div 2\<close>. \<open>getCentroid\<close> returns \<open>null\<close> for every
  geometry collection, the collection \<open>[Point [1, 2]]\<close> included, where the sibling routine
  \<open>getCentroidCoordinate\<close> does recurse and returns \<open>[1, 2]\<close>.
\<close>

theorem centroid_of_collection_is_null:
  "getCentroid ops (Typed (GeometryCollection gs)) = Null
   \<and> getCentroid ops (Typed (Point [1, 2])) = Coord [1, 2]
   \<and> getCentroidCoordinate ops (GeometryCollection [Point [1, 2]]) = Inr (Coord [1, 2])"
  by (simp add: medianIdx_div)

section \<open>Properties of the CRS registry\<close>

lemma ol_projections_proj4_defs_fold:
  "ol_projections (fold (\<lambda>c. proj4_defs_set c s) cs r) = ol_projections r"
  by (induction cs arbitrary: r) (simp_all add: proj4_defs_set_def)

lemma ol_projections_addEquivalent:
  "ol_projections (addEquivalentProjections (map (newOLProjection d) cs) r) c =
     (if c \<in> set cs then Some (newOLProjection d c) else ol_projections r c)"
  unfolding addEquivalentProjections_def
  by (induction cs arbitrary: r) (auto simp: newOLProjection_def)

lemma getProj_registerEntry:
  "getProj (registerEntry d r) c =
     (if c \<in> set (codes d) then Some (newOLProjection d c) else getProj r c)"
  by (simp add: getProj_def registerEntry_def Let_def ol_projections_addEquivalent
        ol_projections_proj4_defs_fold)

lemma addProjections_snoc:
  "addProjections (ds @ [d]) r = registerEntry d (addProjections ds r)"
  by (simp add: addProjections_def)

text \<open>
  After registration a code resolves to the metadata of the last catalogue entry that
  lists it.
\<close>

lemma getProj_addProjections:
  "getProj (addProjections ds r) c =
     (case find (\<lambda>d. c \<in> set (codes d)) (rev ds) of
        Some d \<Rightarrow> Some (newOLProjection d c)
      | None \<Rightarrow> getProj r c)"
proof (induction ds rule: rev_induct)
  case Nil
  show ?case by (simp add: addProjections_def)
next
  case (snoc d ds)
  then show ?case
    by (simp add: addProjections_snoc getProj_registerEntry)
qed

lemmas catalogue_defs =
  proj4326_def proj32627_def proj32628_def proj32629_def proj32630_def proj32631_def
  proj4258_def proj25829_def proj25828_def proj25830_def proj25831_def proj4230_def
  proj23028_def proj23029_def proj23030_def proj23031_def proj4081_def proj4082_def
  proj4083_def proj3395_def

lemma last_entry_listing_EPSG_25830:
  "find (\<lambda>d. ''EPSG:25830'' \<in> set (codes d)) (rev projections) = Some proj25830"
  by (simp add: projections_def catalogue_defs)

lemma last_entry_listing_gml_23030:
  "find (\<lambda>d. ''http://www.opengis.net/gml/srs/epsg.xml#23030'' \<in> set (codes d))
        (rev projections) = Some proj23030"
  by (simp add: projections_def catalogue_defs)

lemma last_entry_listing_EPSG_4326:
  "find (\<lambda>d. ''EPSG:4326'' \<in> set (codes d)) (rev projections) = Some proj4326"
  by (simp add: projections_def catalogue_defs)

lemma getProj_EPSG_4326:
  "getProj registered ''EPSG:4326'' = Some (newOLProjection proj4326 ''EPSG:4326'')"
  by (simp add: registered_def getProj_addProjections last_entry_listing_EPSG_4326)

lemma getProj_EPSG_25830:
  "getProj registered ''EPSG:25830'' = Some (newOLProjection proj25830 ''EPSG:25830'')"
  by (simp add: registered_def getProj_addProjections last_entry_listing_EPSG_25830)

text \<open>
  Claim C2. The claim asks that any two alias codes of one catalogue entry resolve, after
  registration, to metadata with the same extent, unit and meters per unit. The entry
  \<open>proj25830\<close> lists the code \<open>http://www.opengis.net/gml/srs/epsg.xml#23030\<close>, which the
  later entry \<open>proj23030\<close> lists too and registers again: after registration, whatever
  the registry held before, the alias
  \<open>EPSG:25830\<close> resolves to the extent of \<open>proj25830\<close> and its alias
  \<open>http://www.opengis.net/gml/srs/epsg.xml#23030\<close> to the extent of \<open>proj23030\<close>.
\<close>

theorem aliases_of_proj25830_resolve_to_different_extents:
  "proj25830 \<in> set projections
   \<and> ''EPSG:25830'' \<in> set (codes proj25830)
   \<and> ''http://www.opengis.net/gml/srs/epsg.xml#23030'' \<in> set (codes proj25830)
   \<and> map_option proj_extent (getProj (addProjections projections r) ''EPSG:25830'')
       = Some (Some [-729785.83, 3715125.82, 940929.67, 9518470.69])
   \<and> map_option proj_extent
         (getProj (addProjections projections r)
            ''http://www.opengis.net/gml/srs/epsg.xml#23030'')
       = Some (Some [-99844.71, 3879626.63, 1682737.72, 8251830.80])"
proof -
  have "proj25830 \<in> set projections"
    by (simp add: projections_def)
  moreover have "''EPSG:25830'' \<in> set (codes proj25830)"
    and "''http://www.opengis.net/gml/srs/epsg.xml#23030'' \<in> set (codes proj25830)"
    by (simp_all add: proj25830_def)
  moreover have "map_option proj_extent (getProj (addProjections projections r) ''EPSG:25830'')
       = Some (Some [-729785.83, 3715125.82, 940929.67, 9518470.69])"
    by (simp add: getProj_addProjections last_entry_listing_EPSG_25830
          newOLProjection_def proj25830_def)
  moreover have "map_option proj_extent
         (getProj (addProjections projections r)
            ''http://www.opengis.net/gml/srs/epsg.xml#23030'')
       = Some (Some [-99844.71, 3879626.63, 1682737.72, 8251830.80])"
    by (simp add: getProj_addProjections last_entry_listing_gml_23030
          newOLProjection_def proj23030_def)
  ultimately show ?thesis by blast
qed

section \<open>Properties of the extent engine\<close>

lemma every_isProjExtent:
  "list_all (isProjExtent se) (enumerate 0 E) \<longleftrightarrow> (\<forall>i<length E. isProjExtent se (i, E ! i))"
  by (simp add: list_all_length nth_enumerate_eq)

text \<open>
  Claim C1. Let both CRS arguments resolve and let the source CRS have a validity extent
  that is at least as long as the extent \<open>E\<close>. If every ordinate of \<open>E\<close> at an index below
  2 is at most the source extent's and every ordinate at an index from 2 on is at least
  the source extent's, \<open>transformExtent\<close> returns the validity extent of the target CRS
  as it is, without calling the numeric transform; so it does for the source CRS's own
  validity extent.
\<close>

theorem transformExtent_spanning_extent_gives_target_extent:
  assumes src: "resolve r srcProj = Some sp"
    and tgt: "resolve r tgtProj = Some tp"
    and se: "proj_extent sp = Some se"
    and len: "length E \<le> length se"
    and span: "\<forall>i<length E. (i < 2 \<longrightarrow> E ! i \<le> se ! i) \<and> (2 \<le> i \<longrightarrow> E ! i \<ge> se ! i)"
  shows "transformExtent olT r E srcProj tgtProj = Inr (proj_extent tp)
       \<and> transformExtent olT r se srcProj tgtProj = Inr (proj_extent tp)"
proof -
  have spanning: "list_all (isProjExtent se) (enumerate 0 X)"
    if "length X \<le> length se"
      and "\<forall>i<length X. (i < 2 \<longrightarrow> X ! i \<le> se ! i) \<and> (2 \<le> i \<longrightarrow> X ! i \<ge> se ! i)" for X
    unfolding every_isProjExtent
  proof (intro allI impI)
    fix i assume "i < length X"
    with that show "isProjExtent se (i, X ! i)"
      by (cases "i < 2") (auto simp: isProjExtent_def js_le_def js_index_def)
  qed
  have "list_all (isProjExtent se) (enumerate 0 E)"
    using len span by (rule spanning)
  moreover have "list_all (isProjExtent se) (enumerate 0 se)"
    by (rule spanning) simp_all
  ultimately show ?thesis
    using src tgt se by (simp add: transformExtent_def)
qed

theorem transformExtent_spanning_extent_witness:
  "transformExtent (\<lambda>e s t. Inl TypeError) registered [-180, -90, 180, 90]
      (Code ''EPSG:4326'') (Code ''EPSG:25830'')
     = Inr (Some [-729785.83, 3715125.82, 940929.67, 9518470.69])
   \<and> transformExtent (\<lambda>e s t. Inl TypeError) registered [-200, -90, 180, 95]
      (Code ''EPSG:4326'') (Code ''EPSG:25830'')
     = Inr (Some [-729785.83, 3715125.82, 940929.67, 9518470.69])"
proof -
  have src: "resolve registered (Code ''EPSG:4326'') = Some (newOLProjection proj4326 ''EPSG:4326'')"
    by (simp add: resolve_def getProj_EPSG_4326)
  have tgt: "resolve registered (Code ''EPSG:25830'') = Some (newOLProjection proj25830 ''EPSG:25830'')"
    by (simp add: resolve_def getProj_EPSG_25830)
  have se: "proj_extent (newOLProjection proj4326 ''EPSG:4326'') = Some [-180, -90, 180, 90]"
    by (simp add: newOLProjection_def proj4326_def)
  have len: "length [-200, -90, 180, 95 :: real] \<le> length [-180, -90, 180, 90 :: real]"
    by simp
  have span: "\<forall>i<length [-200, -90, 180, 95 :: real].
      (i < 2 \<longrightarrow> [-200, -90, 180, 95 :: real] ! i \<le> [-180, -90, 180, 90] ! i)
    \<and> (2 \<le> i \<longrightarrow> [-200, -90, 180, 95 :: real] ! i \<ge> [-180, -90, 180, 90] ! i)"
    by (simp add: nth_Cons' less_Suc_eq)
  have "proj_extent (newOLProjection proj25830 ''EPSG:25830'')
      = Some [-729785.83, 3715125.82, 940929.67, 9518470.69]"
    by (simp add: newOLProjection_def proj25830_def)
  with transformExtent_spanning_extent_gives_target_extent [OF src tgt se len span]
  show ?thesis by simp
qed









section \<open>Properties of the scale calculator\<close>

subsection \<open>Rounding to a double\<close>

lemma powr_powi: "2 powr (of_int e) = (2::real) powi e"
  by (simp add: powr_real_of_int power_int_def power_one_over inverse_eq_divide)

lemma expo_bounds:
  assumes "x \<noteq> 0"
  shows "2 powi expo x \<le> \<bar>x\<bar>" and "\<bar>x\<bar> < 2 powi (expo x + 1)"
proof -
  have "0 < \<bar>x\<bar>" using assms by simp
  then have "2 powr (of_int (expo x)) \<le> \<bar>x\<bar> \<and> \<bar>x\<bar> < 2 powr (of_int (expo x + 1))"
    using floor_log_eq_powr_iff [of "\<bar>x\<bar>" 2 "expo x"] by (simp add: expo_def)
  then show "2 powi expo x \<le> \<bar>x\<bar>" and "\<bar>x\<bar> < 2 powi (expo x + 1)"
    by (simp_all only: powr_powi)
qed

lemma expo_eq:
  assumes "2 powi e \<le> \<bar>x\<bar>" and "\<bar>x\<bar> < 2 powi (e + 1)"
  shows "expo x = e"
proof -
  have "0 < (2::real) powi e" by simp
  with assms(1) have "0 < \<bar>x\<bar>" by linarith
  moreover have "2 powr (of_int e) \<le> \<bar>x\<bar> \<and> \<bar>x\<bar> < 2 powr (of_int (e + 1))"
    using assms by (simp only: powr_powi)
  ultimately show ?thesis
    using floor_log_eq_powr_iff [of "\<bar>x\<bar>" 2 e] by (simp add: expo_def)
qed

lemma rne_near: "\<bar>of_int (rne x) - x\<bar> \<le> 1 / 2"
  unfolding rne_def Let_def by (auto; linarith)

lemma rne_nearest: "\<bar>of_int (rne x) - x\<bar> \<le> \<bar>of_int m - x\<bar>"
proof (cases "m = rne x")
  case True
  then show ?thesis by simp
next
  case False
  then have "1 \<le> \<bar>m - rne x\<bar>" by linarith
  then have "1 \<le> \<bar>real_of_int m - of_int (rne x)\<bar>"
    by (metis of_int_1_le_iff of_int_abs of_int_diff)
  with rne_near [of x] show ?thesis by linarith
qed

lemma rne_of_int [simp]: "rne (of_int m) = m"
  by (simp add: rne_def)

lemma rne_0 [simp]: "rne 0 = 0"
  by (simp add: rne_def)

lemma ulp_at_pos [simp]: "0 < ulp_at x"
  by (simp add: ulp_at_def)

lemma ulp_at_nonneg [simp]: "0 \<le> ulp_at x"
  using ulp_at_pos [of x] by linarith

lemma ulp_at_neq_0 [simp]: "ulp_at x \<noteq> 0"
  using ulp_at_pos [of x] by linarith

lemma abs_ulp_at [simp]: "\<bar>ulp_at x\<bar> = ulp_at x"
  by simp

lemma pow2_le_iff: "(2::real) powi a \<le> 2 powi b \<longleftrightarrow> a \<le> b"
proof
  assume le: "(2::real) powi a \<le> 2 powi b"
  show "a \<le> b"
  proof (rule ccontr)
    assume "\<not> a \<le> b"
    then have "b < a" by simp
    then have "(2::real) powi b < 2 powi a"
      by (rule power_int_strict_increasing) simp
    with le show False by simp
  qed
next
  assume "a \<le> b"
  then show "(2::real) powi a \<le> 2 powi b"
    by (rule power_int_increasing) simp
qed

lemma pow2_less_iff: "(2::real) powi a < 2 powi b \<longleftrightarrow> a < b"
  using pow2_le_iff [of b a] by (simp add: not_le [symmetric])

lemma pow2_add: "(2::real) powi (a + b) = 2 powi a * 2 powi b"
  by (rule power_int_add) simp

lemma pow2_diff: "(2::real) powi (a - b) = 2 powi a / 2 powi b"
  by (rule power_int_diff) simp

lemma pow2_nat: "0 \<le> a \<Longrightarrow> (2::real) powi a = of_int (2 ^ nat a)"
  by (simp add: power_int_def)

text \<open>The exponent used for the grid, and the size of the scaled value.\<close>

lemma abs_less_grid_top:
  assumes "x \<noteq> 0"
  shows "\<bar>x\<bar> < 2 powi (max (expo x) (- 1022) + 1)"
proof -
  have "\<bar>x\<bar> < 2 powi (expo x + 1)"
    using assms by (rule expo_bounds)
  also have "\<dots> \<le> 2 powi (max (expo x) (- 1022) + 1)"
    by (simp only: pow2_le_iff)
  finally show ?thesis .
qed

lemma ulp_top: "2 ^ 53 * ulp_at x = 2 powi (max (expo x) (- 1022) + 1)"
proof -
  have e: "max (expo x) (- 1022) + 1 = 53 + (max (expo x) (- 1022) - 52)"
    by simp
  have "(2::real) powi (max (expo x) (- 1022) + 1)
      = 2 powi 53 * 2 powi (max (expo x) (- 1022) - 52)"
    by (subst e) (rule pow2_add)
  also have "(2::real) powi 53 = 2 ^ 53"
    by (rule power_int_numeral)
  finally show ?thesis
    by (simp only: ulp_at_def)
qed

lemma scaled_less:
  assumes "x \<noteq> 0"
  shows "\<bar>x / ulp_at x\<bar> < 2 ^ 53"
proof -
  have "\<bar>x\<bar> < 2 powi (max (expo x) (- 1022) + 1)"
    using assms by (rule abs_less_grid_top)
  then have "\<bar>x\<bar> < 2 ^ 53 * ulp_at x"
    by (simp only: ulp_top)
  then have "\<bar>x\<bar> / ulp_at x < 2 ^ 53"
    by (simp only: pos_divide_less_eq ulp_at_pos)
  moreover have "\<bar>x / ulp_at x\<bar> = \<bar>x\<bar> / ulp_at x"
    by simp
  ultimately show ?thesis by (simp only:)
qed

lemma mantissa_le:
  assumes "x \<noteq> 0"
  shows "\<bar>rne (x / ulp_at x)\<bar> \<le> 2 ^ 53"
proof -
  define M where "M = rne (x / ulp_at x)"
  have "\<bar>real_of_int M\<bar> \<le> \<bar>x / ulp_at x\<bar> + 1 / 2"
    using rne_near [of "x / ulp_at x"] unfolding M_def by linarith
  also have "\<dots> < 2 ^ 53 + 1 / 2"
    using scaled_less [OF assms] by (simp only: add_less_cancel_right)
  finally have "real_of_int \<bar>M\<bar> < real_of_int (2 ^ 53 + 1)"
    by simp
  then have "\<bar>M\<bar> < 2 ^ 53 + 1"
    by (simp only: of_int_less_iff)
  then show ?thesis
    unfolding M_def by simp
qed

lemma rnd_Fin_eq:
  assumes "rnd x = Fin y"
  shows "y = of_int (rne (x / ulp_at x)) * ulp_at x"
  using assms by (auto simp: rnd_def Let_def split: if_splits)

lemma rnd_error:
  assumes "rnd x = Fin y"
  shows "\<bar>y - x\<bar> \<le> ulp_at x / 2"
proof -
  have "\<bar>of_int (rne (x / ulp_at x)) - x / ulp_at x\<bar> * ulp_at x \<le> 1 / 2 * ulp_at x"
    by (intro mult_right_mono rne_near) simp
  moreover have "\<bar>of_int (rne (x / ulp_at x)) - x / ulp_at x\<bar> * ulp_at x
      = \<bar>of_int (rne (x / ulp_at x)) * ulp_at x - x\<bar>"
  proof -
    have "\<bar>of_int (rne (x / ulp_at x)) * ulp_at x - x\<bar>
        = \<bar>(of_int (rne (x / ulp_at x)) - x / ulp_at x) * ulp_at x\<bar>"
      by (simp add: left_diff_distrib)
    also have "\<dots> = \<bar>of_int (rne (x / ulp_at x)) - x / ulp_at x\<bar> * ulp_at x"
      by (simp add: abs_mult)
    finally show ?thesis by simp
  qed
  ultimately show ?thesis
    using rnd_Fin_eq [OF assms] by simp
qed

lemma rnd_nearest:
  assumes "rnd x = Fin y"
  shows "\<bar>y - x\<bar> \<le> \<bar>of_int m * ulp_at x - x\<bar>"
proof -
  have scale: "\<bar>of_int k * ulp_at x - x\<bar> = \<bar>of_int k - x / ulp_at x\<bar> * ulp_at x" for k :: int
  proof -
    have "\<bar>of_int k * ulp_at x - x\<bar> = \<bar>(of_int k - x / ulp_at x) * ulp_at x\<bar>"
      by (simp add: left_diff_distrib)
    also have "\<dots> = \<bar>of_int k - x / ulp_at x\<bar> * ulp_at x"
      by (simp add: abs_mult)
    finally show ?thesis .
  qed
  have "\<bar>of_int (rne (x / ulp_at x)) - x / ulp_at x\<bar> * ulp_at x
      \<le> \<bar>of_int m - x / ulp_at x\<bar> * ulp_at x"
    by (intro mult_right_mono rne_nearest) simp
  then show ?thesis
    using rnd_Fin_eq [OF assms] by (simp add: scale)
qed

lemma rnd_finite:
  assumes "\<bar>x\<bar> < 2 powi 1023"
  shows "\<exists>y. rnd x = Fin y"
proof (cases "x = 0")
  case True
  then show ?thesis by (simp add: rnd_def)
next
  case False
  have "expo x < 1023"
  proof -
    have "2 powi expo x \<le> \<bar>x\<bar>" using False by (rule expo_bounds)
    with assms have "(2::real) powi expo x < 2 powi 1023" by linarith
    then show ?thesis by (simp only: pow2_less_iff)
  qed
  then have E: "max (expo x) (- 1022) + 1 \<le> 1023" by simp
  have "real_of_int \<bar>rne (x / ulp_at x)\<bar> \<le> real_of_int (2 ^ 53)"
    using mantissa_le [OF False] by (simp only: of_int_le_iff)
  then have "real_of_int \<bar>rne (x / ulp_at x)\<bar> * ulp_at x \<le> 2 ^ 53 * ulp_at x"
    by (intro mult_right_mono) simp_all
  moreover have "\<bar>of_int (rne (x / ulp_at x)) * ulp_at x\<bar>
      = real_of_int \<bar>rne (x / ulp_at x)\<bar> * ulp_at x"
    by (simp add: abs_mult)
  ultimately have "\<bar>of_int (rne (x / ulp_at x)) * ulp_at x\<bar> \<le> 2 ^ 53 * ulp_at x"
    by (simp only:)
  also have "\<dots> = 2 powi (max (expo x) (- 1022) + 1)"
    by (rule ulp_top)
  also have "\<dots> \<le> 2 powi 1023"
    using E by (simp only: pow2_le_iff)
  also have "\<dots> < (2::real) powi 1024"
    by (simp only: pow2_less_iff)
  finally show ?thesis
    using False by (simp add: rnd_def Let_def)
qed

text \<open>A number of the form \<open>m * 2 ^ j\<close> with a 53-bit \<open>m\<close> is its own rounding.\<close>

lemma rnd_exact:
  assumes x: "x = of_int m * 2 powi j"
    and m: "\<bar>m\<bar> < 2 ^ 53"
    and j: "- 1074 \<le> j"
    and top: "\<bar>x\<bar> < 2 powi 1024"
  shows "rnd x = Fin x"
proof (cases "x = 0")
  case True
  then show ?thesis by (simp add: rnd_def)
next
  case False
  define E where "E = max (expo x) (- 1022)"
  have u: "ulp_at x = 2 powi (E - 52)"
    by (simp add: ulp_at_def E_def)
  have "E - 52 \<le> j"
  proof (cases "expo x \<le> - 1022")
    case True
    then show ?thesis using j by (simp add: E_def)
  next
    case False
    then have E: "E = expo x" by (simp add: E_def)
    have "real_of_int \<bar>m\<bar> < real_of_int (2 ^ 53)"
      using m by (simp only: of_int_less_iff)
    then have "real_of_int \<bar>m\<bar> * 2 powi j < 2 ^ 53 * 2 powi j"
      by (intro mult_strict_right_mono) simp_all
    moreover have "\<bar>x\<bar> = real_of_int \<bar>m\<bar> * 2 powi j"
      by (simp add: x abs_mult)
    moreover have "(2::real) ^ 53 * 2 powi j = 2 powi (53 + j)"
      by (simp add: pow2_add)
    moreover have "2 powi expo x \<le> \<bar>x\<bar>"
      using \<open>x \<noteq> 0\<close> by (rule expo_bounds)
    ultimately have "(2::real) powi expo x < 2 powi (53 + j)"
      by (simp only:)
    then have "expo x < 53 + j"
      by (simp only: pow2_less_iff)
    then show ?thesis using E by simp
  qed
  then obtain d :: nat where d: "j = (E - 52) + int d"
    using zle_iff_zadd by blast
  have xg: "x = of_int (m * 2 ^ d) * 2 powi (E - 52)"
    using x by (simp add: d pow2_add)
  have "x / 2 powi (E - 52) = of_int (m * 2 ^ d)"
    by (subst xg) simp
  then have q: "x / ulp_at x = of_int (m * 2 ^ d)"
    by (simp only: u)
  have "rne (x / ulp_at x) = m * 2 ^ d"
    by (simp only: q rne_of_int)
  then have "of_int (rne (x / ulp_at x)) * ulp_at x = of_int (m * 2 ^ d) * 2 powi (E - 52)"
    by (simp only: u)
  then have "of_int (rne (x / ulp_at x)) * ulp_at x = x"
    using xg by (simp only:)
  then show ?thesis
    using False top by (simp add: rnd_def Let_def)
qed

lemma rnd_of_int:
  assumes "\<bar>i\<bar> < 2 ^ 53"
  shows "rnd (of_int i) = Fin (of_int i)"
proof (rule rnd_exact [where m = i and j = 0])
  show "real_of_int i = real_of_int i * 2 powi 0" by simp
  show "\<bar>i\<bar> < 2 ^ 53" by fact
  show "- 1074 \<le> (0::int)" by simp
  have "\<bar>real_of_int i\<bar> = real_of_int \<bar>i\<bar>" by simp
  also have "\<dots> < real_of_int (2 ^ 53)"
    using assms by (simp only: of_int_less_iff)
  also have "\<dots> = 2 powi 53" by simp
  also have "\<dots> < (2::real) powi 1024"
    by (simp only: pow2_less_iff)
  finally show "\<bar>real_of_int i\<bar> < 2 powi 1024" .
qed

text \<open>A double is an integer multiple of the grid step of its own binade.\<close>

lemma double_grid:
  assumes "double s" and "s \<noteq> 0"
  shows "\<exists>m::int. s = of_int m * 2 powi (expo s - 52)"
proof -
  from assms(1) obtain x where x: "rnd x = Fin s"
    unfolding double_def by blast
  have "x \<noteq> 0"
    using x assms(2) by (auto simp: rnd_def)
  define E where "E = max (expo x) (- 1022)"
  define M where "M = rne (x / ulp_at x)"
  define k where "k = expo s"
  have u: "ulp_at x = 2 powi (E - 52)"
    by (simp add: ulp_at_def E_def)
  have s: "s = of_int M * 2 powi (E - 52)"
    using rnd_Fin_eq [OF x] by (simp only: M_def u)
  have M: "\<bar>M\<bar> \<le> 2 ^ 53"
    unfolding M_def using \<open>x \<noteq> 0\<close> by (rule mantissa_le)
  have abs_s: "\<bar>s\<bar> = real_of_int \<bar>M\<bar> * 2 powi (E - 52)"
    by (simp add: s abs_mult)
  have top: "(2::real) ^ 53 * 2 powi (E - 52) = 2 powi (E + 1)"
    using ulp_top [of x] by (simp only: u E_def)
  have "real_of_int \<bar>M\<bar> \<le> real_of_int (2 ^ 53)"
    using M by (simp only: of_int_le_iff)
  then have "real_of_int \<bar>M\<bar> * 2 powi (E - 52) \<le> 2 ^ 53 * 2 powi (E - 52)"
    by (intro mult_right_mono) simp_all
  then have le_top: "\<bar>s\<bar> \<le> 2 powi (E + 1)"
    by (simp only: abs_s top)
  have low: "2 powi k \<le> \<bar>s\<bar>"
    unfolding k_def using assms(2) by (rule expo_bounds)
  with le_top have "(2::real) powi k \<le> 2 powi (E + 1)"
    by linarith
  then have k: "k \<le> E + 1"
    by (simp only: pow2_le_iff)
  show ?thesis
  proof (cases "k \<le> E")
    case True
    then obtain d :: nat where d: "E = k + int d"
      using zle_iff_zadd by blast
    have "E - 52 = (k - 52) + int d"
      using d by simp
    then have "(2::real) powi (E - 52) = 2 powi (k - 52) * 2 ^ d"
      by (simp only: pow2_add power_int_of_nat)
    then have "s = of_int (M * 2 ^ d) * 2 powi (k - 52)"
      by (simp add: s)
    then show ?thesis unfolding k_def by blast
  next
    case False
    with k have eq: "k = E + 1" by simp
    have "2 powi (E + 1) \<le> \<bar>s\<bar>"
      using low by (simp only: eq)
    with le_top have "\<bar>s\<bar> = 2 powi (E + 1)" by linarith
    then have "real_of_int \<bar>M\<bar> * 2 powi (E - 52) = 2 ^ 53 * 2 powi (E - 52)"
      by (simp only: abs_s top)
    then have "real_of_int \<bar>M\<bar> = real_of_int (2 ^ 53)"
      by simp
    then have absM: "\<bar>M\<bar> = 2 ^ 53"
      by (simp only: of_int_eq_iff)
    then have "M = 2 ^ 53 \<or> M = - (2 ^ 53)"
      by linarith
    then have "M = 2 * (M div 2)"
      by (elim disjE) simp_all
    then have "real_of_int M = 2 * real_of_int (M div 2)"
      by (metis of_int_mult of_int_numeral)
    moreover have "(2::real) powi (k - 52) = 2 * 2 powi (E - 52)"
    proof -
      have "k - 52 = 1 + (E - 52)" using eq by simp
      then show ?thesis by (simp only: pow2_add) simp
    qed
    ultimately have "s = of_int (M div 2) * 2 powi (k - 52)"
      by (simp add: s)
    then show ?thesis unfolding k_def by blast
  qed
qed

text \<open>
  Dividing a double by an integer \<open>D\<close> between two powers of two, rounding the quotient
  to a double and that to the nearest integer \<open>n\<close> gives a multiple \<open>n * D\<close> nearest
  to the double one started from.
\<close>

lemma round_quotient_nearest:
  fixes D :: int and j :: nat
  assumes ds: "double s"
    and Dlo: "2 ^ j < D" and Dhi: "D < 2 ^ Suc j" and Dt: "2 ^ Suc t dvd D"
    and tj: "t < j" and j1000: "j \<le> 900"
    and lo: "1 \<le> s" and hi: "s < 2 ^ (53 + t)"
    and q: "rnd (s / of_int D) = Fin q"
  shows "\<bar>of_int (\<lfloor>q + 1 / 2\<rfloor> * D) - s\<bar> \<le> of_int D / 2"
proof -
  define x where "x = s / of_int D"
  define n where "n = \<lfloor>q + 1 / 2\<rfloor>"
  define E where "E = expo x"
  define k where "k = expo s"
  have q': "rnd x = Fin q"
    using q by (simp only: x_def)
  have Dpos: "0 < D"
  proof -
    have "(0::int) < 2 ^ j" by simp
    with Dlo show ?thesis by linarith
  qed
  then have rD: "0 < real_of_int D" by simp
  have rDlo: "2 ^ j < real_of_int D"
    using Dlo by (metis of_int_less_iff of_int_numeral of_int_power)
  have rDhi: "real_of_int D < 2 ^ Suc j"
    using Dhi by (metis of_int_less_iff of_int_numeral of_int_power)
  have s_pos: "0 < s"
    using lo by linarith
  have sx: "s = x * of_int D"
    using rD by (simp add: x_def)
  have x_pos: "0 < x"
    using s_pos rD by (simp add: x_def)
  have xtop: "x < 2 ^ 52"
  proof -
    have "(2::real) ^ Suc t \<le> 2 ^ j"
      using tj by (intro power_increasing) simp_all
    with rDlo have "2 ^ Suc t < real_of_int D" by linarith
    then have "x * 2 ^ Suc t < x * of_int D"
      using x_pos by (intro mult_strict_left_mono) simp_all
    with hi sx have "x * 2 ^ Suc t < 2 ^ (53 + t)" by linarith
    moreover have "(2::real) ^ (53 + t) = 2 ^ 52 * 2 ^ Suc t"
      by (simp add: power_add)
    ultimately have "x * 2 ^ Suc t < 2 ^ 52 * 2 ^ Suc t"
      by (simp only:)
    then show ?thesis
      by (simp only: mult_less_cancel_right_pos zero_less_power zero_less_numeral)
  qed
  have x0: "x \<noteq> 0" using x_pos by simp
  have absx: "\<bar>x\<bar> = x" using x_pos by simp
  have Elow: "2 powi E \<le> x" and Ehigh: "x < 2 powi (E + 1)"
    using expo_bounds [OF x0] by (simp_all only: E_def absx)
  have E0: "- 1022 \<le> E"
  proof -
    have "x * of_int D < x * 2 ^ Suc j"
      using rDhi x_pos by (intro mult_strict_left_mono) simp_all
    with lo sx have "1 < x * 2 ^ Suc j" by linarith
    then have "1 / 2 ^ Suc j < x"
      by (simp add: pos_divide_less_eq)
    moreover have "(2::real) powi (- int (Suc j)) = 1 / 2 ^ Suc j"
      by (simp only: power_int_minus_divide power_int_of_nat)
    ultimately have "(2::real) powi (- int (Suc j)) < 2 powi (E + 1)"
      using Ehigh by linarith
    then have "- int (Suc j) < E + 1" by (simp only: pow2_less_iff)
    then show ?thesis using j1000 by simp
  qed
  have E51: "E \<le> 51"
  proof -
    have "(2::real) powi E < 2 powi 52"
      using Elow xtop by simp
    then have "E < 52" by (simp only: pow2_less_iff)
    then show ?thesis by simp
  qed
  have u: "ulp_at x = 2 powi (E - 52)"
    using E0 by (simp add: ulp_at_def E_def)
  have half_grid: "\<exists>m::int. real_of_int a / 2 = of_int m * ulp_at x" for a :: int
  proof -
    obtain d :: nat where d: "51 = E + int d"
      using E51 zle_iff_zadd by blast
    have "E - 52 = - 1 - int d" using d by simp
    then have "(2::real) powi (E - 52) = 2 powi (- 1) / 2 ^ d"
      by (simp only: pow2_diff power_int_of_nat)
    then have "real_of_int (a * 2 ^ d) * ulp_at x = real_of_int a / 2"
      by (simp add: u power_int_minus)
    then show ?thesis by metis
  qed
  have n_le: "of_int n \<le> q + 1 / 2" and n_gt: "q + 1 / 2 < of_int n + 1"
    unfolding n_def by linarith+
  have upper: "x \<le> of_int n + 1 / 2"
  proof (rule ccontr)
    assume "\<not> x \<le> of_int n + 1 / 2"
    then have gt: "of_int n + 1 / 2 < x" by simp
    obtain m :: int where m: "real_of_int (2 * n + 1) / 2 = of_int m * ulp_at x"
      using half_grid by blast
    have "\<bar>q - x\<bar> \<le> \<bar>of_int m * ulp_at x - x\<bar>"
      by (rule rnd_nearest [OF q'])
    then have "\<bar>q - x\<bar> \<le> \<bar>real_of_int (2 * n + 1) / 2 - x\<bar>"
      by (simp only: m)
    with gt n_gt show False by simp
  qed
  have lower: "of_int n - 1 / 2 \<le> x"
  proof (rule ccontr)
    assume "\<not> of_int n - 1 / 2 \<le> x"
    then have lt: "x < of_int n - 1 / 2" by simp
    obtain m :: int where m: "real_of_int (2 * n - 1) / 2 = of_int m * ulp_at x"
      using half_grid by blast
    have "\<bar>q - x\<bar> \<le> \<bar>of_int m * ulp_at x - x\<bar>"
      by (rule rnd_nearest [OF q'])
    then have "\<bar>q - x\<bar> \<le> \<bar>real_of_int (2 * n - 1) / 2 - x\<bar>"
      by (simp only: m)
    with lt n_le have qh: "q = of_int n - 1 / 2" by simp
    have "\<bar>q - x\<bar> \<le> ulp_at x / 2"
      by (rule rnd_error [OF q'])
    with qh lt have err: "of_int n - 1 / 2 - x \<le> 2 powi (E - 52) / 2"
      by (simp add: u)
    text \<open>The gap between \<open>s\<close> and the half-way point \<open>n * D - D / 2\<close>.\<close>
    define I where "I = n * D - D div 2"
    obtain c where Dc: "D = 2 ^ Suc t * c"
      using Dt by (rule dvdE)
    then have "D = 2 * (D div 2)" by simp
    then have "real_of_int D = 2 * real_of_int (D div 2)"
      by (metis of_int_mult of_int_numeral)
    then have I: "real_of_int I = (of_int n - 1 / 2) * of_int D"
      by (simp add: I_def algebra_simps)
    have s0: "s \<noteq> 0" using s_pos by simp
    obtain ms :: int where ms: "s = of_int ms * 2 powi (k - 52)"
      using double_grid [OF ds s0] unfolding k_def by blast
    have abss: "\<bar>s\<bar> = s" using s_pos by simp
    have klow: "2 powi k \<le> s" and khigh: "s < 2 powi (k + 1)"
      using expo_bounds [OF s0] by (simp_all only: k_def abss)
    have k53: "k \<le> 52 + int t"
    proof -
      have "(2::real) ^ (53 + t) = 2 powi (53 + int t)"
        by (simp add: power_int_add power_add)
      with klow hi have "(2::real) powi k < 2 powi (53 + int t)"
        by linarith
      then have "k < 53 + int t" by (simp only: pow2_less_iff)
      then show ?thesis by simp
    qed
    have "\<exists>mi::int. real_of_int I = of_int mi * 2 powi (k - 52)"
    proof (cases "k \<le> 52")
      case True
      then obtain d :: nat where d: "52 = k + int d"
        using zle_iff_zadd by blast
      have "k - 52 = - int d" using d by simp
      then have "(2::real) powi (k - 52) = 1 / 2 ^ d"
        by (simp add: power_int_minus_divide)
      then have "real_of_int (I * 2 ^ d) * 2 powi (k - 52) = real_of_int I"
        by simp
      then show ?thesis by metis
    next
      case False
      then obtain d :: nat where d: "k = 52 + int d"
        using zle_iff_zadd [of 52 k] by auto
      with k53 have "d \<le> t" by simp
      then obtain d' :: nat where d': "t = d + d'"
        using le_Suc_ex by blast
      have "I = 2 ^ d * (2 ^ d' * (2 * n * c - c))"
        by (simp add: I_def Dc d' power_add algebra_simps)
      then have "real_of_int I = real_of_int (2 ^ d' * (2 * n * c - c)) * 2 ^ d"
        by (simp only: of_int_mult of_int_power of_int_numeral mult.commute)
      moreover have "(2::real) powi (k - 52) = 2 ^ d"
        by (simp add: d)
      ultimately show ?thesis by metis
    qed
    then obtain mi :: int where mi: "real_of_int I = of_int mi * 2 powi (k - 52)"
      by blast
    have "s < real_of_int I"
      using lt rD by (simp add: I sx)
    then have "real_of_int ms * 2 powi (k - 52) < real_of_int mi * 2 powi (k - 52)"
      using ms mi by (simp only:)
    then have "real_of_int ms < real_of_int mi"
      by simp
    then have "ms + 1 \<le> mi" by simp
    then have "real_of_int ms + 1 \<le> real_of_int mi"
      by (metis of_int_1 of_int_add of_int_le_iff)
    then have "(real_of_int ms + 1) * 2 powi (k - 52) \<le> real_of_int mi * 2 powi (k - 52)"
      by (intro mult_right_mono) simp_all
    then have gap: "2 powi (k - 52) \<le> real_of_int I - s"
      using ms mi by (simp add: algebra_simps)
    text \<open>The exponents of \<open>s\<close> and of the quotient differ by at least \<open>j\<close>.\<close>
    have "x * 2 ^ j < x * of_int D"
      using rDlo x_pos by (intro mult_strict_left_mono) simp_all
    with khigh sx have "x * 2 ^ j < 2 powi (k + 1)" by linarith
    then have "x < 2 powi (k + 1) / 2 powi (int j)"
      by (simp add: pos_less_divide_eq)
    then have "x < 2 powi (k + 1 - int j)"
      by (simp only: pow2_diff)
    with Elow have "(2::real) powi E < 2 powi (k + 1 - int j)" by linarith
    then have "E < k + 1 - int j"
      by (simp only: pow2_less_iff)
    then have Ek: "E \<le> k - int j"
      by simp
    text \<open>So the error allowed is smaller than the gap.\<close>
    have "real_of_int I - s = (of_int n - 1 / 2 - x) * of_int D"
      by (simp add: I sx algebra_simps)
    also have "\<dots> \<le> (2 powi (E - 52) / 2) * of_int D"
      using err rD by (intro mult_right_mono) simp_all
    also have "\<dots> < (2 powi (E - 52) / 2) * 2 ^ Suc j"
      using rDhi by (intro mult_strict_left_mono) simp_all
    also have "\<dots> = 2 powi (E - 52 + int j)"
      by (simp add: pow2_add)
    also have "\<dots> \<le> 2 powi (k - 52)"
    proof -
      have "E - 52 + int j \<le> k - 52" using Ek by simp
      then show ?thesis by (simp only: pow2_le_iff)
    qed
    finally show False using gap by simp
  qed
  have "\<bar>of_int n - x\<bar> \<le> 1 / 2"
    using upper lower by linarith
  then have "\<bar>of_int n - x\<bar> * of_int D \<le> 1 / 2 * of_int D"
    using rD by (intro mult_right_mono) simp_all
  moreover have "\<bar>of_int n - x\<bar> * of_int D = \<bar>of_int (n * D) - s\<bar>"
  proof -
    have "\<bar>of_int (n * D) - s\<bar> = \<bar>(of_int n - x) * of_int D\<bar>"
      by (simp add: sx algebra_simps)
    also have "\<dots> = \<bar>of_int n - x\<bar> * of_int D"
      using rD by (simp add: abs_mult)
    finally show ?thesis by simp
  qed
  ultimately show ?thesis
    by (simp add: n_def)
qed

subsection \<open>The rounding step of the scale\<close>

lemma fdiv_Fin_double:
  assumes "fdiv a b = Fin s"
  shows "double s"
proof (cases a)
  case (Fin x)
  show ?thesis
  proof (cases b)
    case (Fin y)
    with \<open>a = Fin x\<close> assms show ?thesis
      by (auto simp: double_def signed_infinity_def split: if_splits)
  next
    case NaN with \<open>a = Fin x\<close> assms show ?thesis by simp
  next
    case PosInf
    with \<open>a = Fin x\<close> assms have "s = 0" by simp
    then show ?thesis unfolding double_def by (auto simp: rnd_def intro: exI [of _ 0])
  next
    case NegInf
    with \<open>a = Fin x\<close> assms have "s = 0" by simp
    then show ?thesis unfolding double_def by (auto simp: rnd_def intro: exI [of _ 0])
  qed
next
  case NaN with assms show ?thesis by simp
next
  case PosInf with assms show ?thesis
    by (cases b) (simp_all add: signed_infinity_def jsign_def split: if_splits)
next
  case NegInf with assms show ?thesis
    by (cases b) (simp_all add: signed_infinity_def jsign_def split: if_splits)
qed

lemma Math_trunc_integer_part:
  "\<exists>k. Math_trunc (Fin s) = Fin (of_int k) \<and> integer_part s k"
proof (cases "s < 0")
  case True
  have "\<lceil>s\<rceil> \<le> 0"
    using True by (simp add: ceiling_le_iff)
  then have "real_of_int \<lceil>s\<rceil> \<le> 0" by simp
  moreover have "real_of_int \<lceil>s\<rceil> - 1 < s" and "s \<le> real_of_int \<lceil>s\<rceil>"
    by linarith+
  ultimately have "integer_part s \<lceil>s\<rceil>"
    unfolding integer_part_def using True by linarith
  with True show ?thesis by auto
next
  case False
  have "0 \<le> \<lfloor>s\<rfloor>"
    using False by simp
  then have "0 \<le> real_of_int \<lfloor>s\<rfloor>" by simp
  moreover have "real_of_int \<lfloor>s\<rfloor> \<le> s" and "s < real_of_int \<lfloor>s\<rfloor> + 1"
    by linarith+
  ultimately have "integer_part s \<lfloor>s\<rfloor>"
    unfolding integer_part_def using False by linarith
  with False show ?thesis by auto
qed

lemma Math_trunc_of_int [simp]: "Math_trunc (Fin (of_int i)) = Fin (of_int i)"
  by simp

lemma roundedScale_low:
  assumes "s < 1000"
  shows "\<exists>k. roundedScale (Fin s) False = Fin (of_int k) \<and> nearest_multiple 1 s k"
proof -
  have "roundedScale (Fin s) False = Fin (of_int \<lfloor>s + 1 / 2\<rfloor>)"
    using assms by (simp add: roundedScale_def)
  moreover have "\<bar>real_of_int \<lfloor>s + 1 / 2\<rfloor> - s\<bar> \<le> 1 / 2"
    by linarith
  then have "nearest_multiple 1 s \<lfloor>s + 1 / 2\<rfloor>"
    by (simp add: nearest_multiple_def)
  ultimately show ?thesis by blast
qed

lemma rounded_quotient:
  fixes D :: int and j :: nat
  assumes ds: "double s"
    and Dlo: "2 ^ j < D" and Dhi: "D < 2 ^ Suc j" and Dt: "2 ^ Suc t dvd D"
    and tj: "t < j" and j1000: "j \<le> 900"
    and lo: "1 \<le> s" and hi: "s < 2 ^ (53 + t)"
    and rep: "\<And>n. \<bar>real_of_int (n * D) - s\<bar> \<le> of_int D / 2 \<Longrightarrow> rnd (of_int (n * D)) = Fin (of_int (n * D))"
  shows "\<exists>k. Math_trunc (fmul (Math_round (fdiv (Fin s) (Fin (of_int D)))) (Fin (of_int D)))
              = Fin (of_int k) \<and> nearest_multiple D s k"
proof -
  have Dpos: "0 < D"
  proof -
    have "(0::int) < 2 ^ j" by simp
    with Dlo show ?thesis by linarith
  qed
  have "1 \<le> real_of_int D"
    using Dpos by simp
  then have "s * 1 \<le> s * real_of_int D"
    using lo by (intro mult_left_mono) simp_all
  then have "s / of_int D \<le> s"
    using Dpos by (simp add: pos_divide_le_eq)
  moreover have "0 \<le> s / of_int D"
    using lo Dpos by simp
  moreover have "(2::real) ^ (53 + t) < 2 powi 1023"
  proof -
    have "(2::real) ^ (53 + t) = 2 powi (53 + int t)"
      by (simp add: power_int_add power_add)
    moreover have "(2::real) powi (53 + int t) < 2 powi 1023"
    proof -
      have "53 + int t < 1023" using tj j1000 by simp
      then show ?thesis by (simp only: pow2_less_iff)
    qed
    ultimately show ?thesis by (simp only:)
  qed
  ultimately have "\<bar>s / of_int D\<bar> < 2 powi 1023"
    using hi by linarith
  then obtain q where q: "rnd (s / of_int D) = Fin q"
    using rnd_finite by blast
  define n where "n = \<lfloor>q + 1 / 2\<rfloor>"
  have near: "\<bar>of_int (n * D) - s\<bar> \<le> of_int D / 2"
    unfolding n_def by (rule round_quotient_nearest [OF ds Dlo Dhi Dt tj j1000 lo hi q])
  have "fdiv (Fin s) (Fin (of_int D)) = Fin q"
    using q Dpos by simp
  then have "fmul (Math_round (fdiv (Fin s) (Fin (of_int D)))) (Fin (of_int D))
      = rnd (of_int (n * D))"
    by (simp add: n_def)
  also have "\<dots> = Fin (of_int (n * D))"
    using near by (rule rep)
  finally have "Math_trunc (fmul (Math_round (fdiv (Fin s) (Fin (of_int D)))) (Fin (of_int D)))
      = Fin (of_int (n * D))"
    by (simp only: Math_trunc_of_int)
  moreover have "nearest_multiple D s (n * D)"
    using near by (simp add: nearest_multiple_def)
  ultimately show ?thesis by blast
qed

lemma roundedScale_mid:
  assumes ds: "double s" and lo: "1000 \<le> s" and hi: "s \<le> 950000"
  shows "\<exists>k. roundedScale (Fin s) False = Fin (of_int k) \<and> nearest_multiple 1000 s k"
proof -
  have rep: "rnd (of_int (n * 1000)) = Fin (of_int (n * 1000))"
    if "\<bar>real_of_int (n * 1000) - s\<bar> \<le> of_int 1000 / 2" for n :: int
  proof (rule rnd_of_int)
    have "\<bar>real_of_int (n * 1000)\<bar> \<le> s + 500"
      using that lo by simp
    with hi have "real_of_int \<bar>n * 1000\<bar> < real_of_int (2 ^ 53)"
      by simp
    then show "\<bar>n * 1000\<bar> < 2 ^ 53"
      by (simp only: of_int_less_iff)
  qed
  have "\<exists>k. Math_trunc (fmul (Math_round (fdiv (Fin s) (Fin (of_int 1000)))) (Fin (of_int 1000)))
            = Fin (of_int k) \<and> nearest_multiple 1000 s k"
  proof (rule rounded_quotient [where j = 9 and t = 2])
    show "double s" by fact
    show "(2::int) ^ 9 < 1000" and "(1000::int) < 2 ^ Suc 9" and "(2::int) ^ Suc 2 dvd 1000"
      and "(2::nat) < 9" and "(9::nat) \<le> 900"
      by simp_all
    show "1 \<le> s" using lo by simp
    show "s < 2 ^ (53 + 2)" using hi by simp
    show "rnd (of_int (n * 1000)) = Fin (of_int (n * 1000))"
      if "\<bar>real_of_int (n * 1000) - s\<bar> \<le> of_int 1000 / 2" for n
      using that by (rule rep)
  qed
  moreover have "roundedScale (Fin s) False
      = Math_trunc (fmul (Math_round (fdiv (Fin s) (Fin (of_int 1000)))) (Fin (of_int 1000)))"
    using lo hi by (simp add: roundedScale_def)
  ultimately show ?thesis by (simp only:)
qed

lemma roundedScale_high_small:
  assumes ds: "double s" and lo: "950000 < s" and hi: "s < 2 ^ 58"
  shows "\<exists>k. roundedScale (Fin s) False = Fin (of_int k) \<and> nearest_multiple 1000000 s k"
proof -
  have rep: "rnd (of_int (n * 1000000)) = Fin (of_int (n * 1000000))"
    if "\<bar>real_of_int (n * 1000000) - s\<bar> \<le> of_int 1000000 / 2" for n :: int
  proof (rule rnd_exact [where m = "n * 15625" and j = 6])
    show "real_of_int (n * 1000000) = real_of_int (n * 15625) * 2 powi 6"
      by simp
    show "- 1074 \<le> (6::int)" by simp
    have b: "\<bar>real_of_int (n * 1000000)\<bar> \<le> s + 500000"
      using that lo by simp
    then have "\<bar>real_of_int n\<bar> * 1000000 < 2 ^ 58 + 500000"
      using hi by (simp add: abs_mult)
    then have "real_of_int \<bar>n * 15625\<bar> < real_of_int (2 ^ 53)"
      by (simp add: abs_mult)
    then show "\<bar>n * 15625\<bar> < 2 ^ 53"
      by (simp only: of_int_less_iff)
    have "(2::real) ^ 58 + 500000 < 2 ^ 59" by simp
    also have "\<dots> = (2::real) powi 59" by simp
    also have "\<dots> < (2::real) powi 1024" by (simp only: pow2_less_iff)
    finally show "\<bar>real_of_int (n * 1000000)\<bar> < 2 powi 1024"
      using b hi by linarith
  qed
  have "\<exists>k. Math_trunc (fmul (Math_round (fdiv (Fin s) (Fin (of_int 1000000))))
              (Fin (of_int 1000000))) = Fin (of_int k) \<and> nearest_multiple 1000000 s k"
  proof (rule rounded_quotient [where j = 19 and t = 5])
    show "double s" by fact
    show "(2::int) ^ 19 < 1000000" and "(1000000::int) < 2 ^ Suc 19"
      and "(2::int) ^ Suc 5 dvd 1000000" and "(5::nat) < 19" and "(19::nat) \<le> 900"
      by simp_all
    show "1 \<le> s" using lo by simp
    show "s < 2 ^ (53 + 5)" using hi by simp
    show "rnd (of_int (n * 1000000)) = Fin (of_int (n * 1000000))"
      if "\<bar>real_of_int (n * 1000000) - s\<bar> \<le> of_int 1000000 / 2" for n
      using that by (rule rep)
  qed
  moreover have "roundedScale (Fin s) False
      = Math_trunc (fmul (Math_round (fdiv (Fin s) (Fin (of_int 1000000))))
          (Fin (of_int 1000000)))"
    using lo by (simp add: roundedScale_def)
  ultimately show ?thesis by (simp only:)
qed

lemma quotient_error:
  assumes q: "rnd x = Fin q"
    and lo: "2 powi e \<le> x" and hi: "x < 2 powi (e + 1)" and e: "- 1022 \<le> e"
  shows "\<bar>q - x\<bar> \<le> 2 powi (e - 53)"
proof -
  have "0 < (2::real) powi e" by simp
  with lo have pos: "0 < x" by linarith
  then have "\<bar>x\<bar> = x" by simp
  with lo hi have "expo x = e"
    by (intro expo_eq) simp_all
  then have "ulp_at x = 2 powi (e - 52)"
    using e by (simp add: ulp_at_def)
  moreover have "(2::real) powi (e - 52) = 2 * 2 powi (e - 53)"
  proof -
    have "e - 52 = 1 + (e - 53)" by simp
    then show ?thesis by (simp only: pow2_add) simp
  qed
  ultimately have "ulp_at x / 2 = 2 powi (e - 53)" by simp
  with rnd_error [OF q] show ?thesis by simp
qed

lemma double_grid_64:
  assumes ds: "double s" and lo: "2 ^ 58 \<le> s" and hi: "s < 2 ^ 59"
  shows "\<exists>m::int. s = of_int m * 64"
proof -
  have pos: "0 < s" using lo by (simp add: less_le_trans [of 0 "2 ^ 58" s])
  then have abss: "\<bar>s\<bar> = s" and s0: "s \<noteq> 0" by simp_all
  have "(2::real) powi 58 \<le> \<bar>s\<bar>" and "\<bar>s\<bar> < (2::real) powi (58 + 1)"
    using lo hi abss by simp_all
  then have "expo s = 58" by (rule expo_eq)
  with double_grid [OF ds s0] obtain m :: int where "s = of_int m * 2 powi (58 - 52)"
    by auto
  then have "s = of_int m * 64" by simp
  then show ?thesis by blast
qed

lemma roundedScale_of_near:
  assumes q: "rnd (s / 1000000) = Fin q"
    and near: "\<bar>real_of_int (\<lfloor>q + 1 / 2\<rfloor> * 1000000) - s\<bar> \<le> 500000"
    and lo: "950000 < s" and hi: "s < 549755813888499968"
  shows "\<exists>k. roundedScale (Fin s) False = Fin (of_int k) \<and> nearest_multiple 1000000 s k"
proof -
  define n where "n = \<lfloor>q + 1 / 2\<rfloor>"
  have near': "\<bar>real_of_int (n * 1000000) - s\<bar> \<le> 500000"
    using near by (simp only: n_def)
  have rep: "rnd (of_int (n * 1000000)) = Fin (of_int (n * 1000000))"
  proof (rule rnd_exact [where m = "n * 15625" and j = 6])
    show "real_of_int (n * 1000000) = real_of_int (n * 15625) * 2 powi 6"
      by simp
    show "- 1074 \<le> (6::int)" by simp
    have b: "\<bar>real_of_int (n * 1000000)\<bar> \<le> s + 500000"
      using near' lo by simp
    then have "\<bar>real_of_int n\<bar> * 1000000 < 549755813888499968 + 500000"
      using hi by (simp add: abs_mult)
    then have "real_of_int \<bar>n * 15625\<bar> < real_of_int (2 ^ 53)"
      by (simp add: abs_mult)
    then show "\<bar>n * 15625\<bar> < 2 ^ 53"
      by (simp only: of_int_less_iff)
    have "(549755813888499968::real) + 500000 < 2 ^ 59" by simp
    also have "\<dots> = (2::real) powi 59" by simp
    also have "\<dots> < (2::real) powi 1024" by (simp only: pow2_less_iff)
    finally show "\<bar>real_of_int (n * 1000000)\<bar> < 2 powi 1024"
      using b hi by linarith
  qed
  have "fdiv (Fin s) (Fin 1000000) = Fin q"
    using q by simp
  then have "fmul (Math_round (fdiv (Fin s) (Fin 1000000))) (Fin 1000000)
      = rnd (of_int (n * 1000000))"
    by (simp add: n_def)
  then have "Math_trunc (fmul (Math_round (fdiv (Fin s) (Fin 1000000))) (Fin 1000000))
      = Fin (of_int (n * 1000000))"
    by (simp only: rep Math_trunc_of_int)
  moreover have "roundedScale (Fin s) False
      = Math_trunc (fmul (Math_round (fdiv (Fin s) (Fin 1000000))) (Fin 1000000))"
    using lo by (simp add: roundedScale_def)
  moreover have "nearest_multiple 1000000 s (n * 1000000)"
    using near' by (simp add: nearest_multiple_def)
  ultimately show ?thesis by metis
qed

text \<open>
  From \<open>2 ^ 58\<close> on the doubles are 64 apart, and the half-way points between the
  multiples of 1000000 are multiples of 32. Below \<open>2 ^ 39 * 1000000\<close> the quotient is
  rounded with an error of at most \<open>2 ^ - 15\<close>, less than 32 when multiplied by 1000000.
\<close>

lemma roundedScale_high_large:
  assumes ds: "double s" and lo: "2 ^ 58 \<le> s" and hi: "s < 549755813888000000"
  shows "\<exists>k. roundedScale (Fin s) False = Fin (of_int k) \<and> nearest_multiple 1000000 s k"
proof -
  define x where "x = s / 1000000"
  have sx: "s = x * 1000000" by (simp add: x_def)
  have xlo: "2 powi 38 \<le> x" and xhi: "x < 2 powi (38 + 1)"
    using lo hi by (simp_all add: x_def)
  then have "\<bar>x\<bar> < 2 powi 1023"
    by simp
  then obtain q where q: "rnd x = Fin q"
    using rnd_finite by blast
  have "\<bar>q - x\<bar> \<le> 2 powi (38 - 53)"
    using q xlo xhi by (rule quotient_error) simp
  then have err: "\<bar>q - x\<bar> \<le> 1 / 32768"
    by (simp add: power_int_minus_divide)
  have "s < 2 ^ 59" using hi by simp
  with ds lo obtain ms :: int where ms: "s = of_int ms * 64"
    using double_grid_64 by blast
  define n where "n = \<lfloor>q + 1 / 2\<rfloor>"
  have n_le: "of_int n \<le> q + 1 / 2" and n_gt: "q + 1 / 2 < of_int n + 1"
    unfolding n_def by linarith+
  have "real_of_int n - 1 / 2 - 1 / 32768 \<le> x"
    using err n_le by linarith
  then have "real_of_int (1000000 * n - 500031) < real_of_int (64 * ms)"
    using ms by (simp add: sx)
  then have "1000000 * n - 500031 < 64 * ms"
    by (simp only: of_int_less_iff)
  then have l: "31250 * n - 15625 \<le> 2 * ms"
    by linarith
  have "x < real_of_int n + 1 / 2 + 1 / 32768"
    using err n_gt by linarith
  then have "real_of_int (64 * ms) < real_of_int (1000000 * n + 500031)"
    using ms by (simp add: sx)
  then have "64 * ms < 1000000 * n + 500031"
    by (simp only: of_int_less_iff)
  then have u: "2 * ms \<le> 31250 * n + 15625"
    by linarith
  have "\<bar>n * 1000000 - 64 * ms\<bar> \<le> 500000"
    using l u by linarith
  then have "real_of_int \<bar>n * 1000000 - 64 * ms\<bar> \<le> real_of_int 500000"
    by (simp only: of_int_le_iff)
  then have near: "\<bar>real_of_int (\<lfloor>q + 1 / 2\<rfloor> * 1000000) - s\<bar> \<le> 500000"
    by (simp add: ms n_def)
  show ?thesis
  proof (rule roundedScale_of_near [OF _ near])
    show "rnd (s / 1000000) = Fin q" using q by (simp only: x_def)
    show "950000 < s" using lo by simp
    show "s < 549755813888499968" using hi by simp
  qed
qed

text \<open>
  From \<open>2 ^ 39 * 1000000\<close> to the last double below 549755813888499968 the quotient is
  rounded with an error of at most \<open>2 ^ - 14\<close>, and so stays below \<open>2 ^ 39 + 1 / 2\<close>.
\<close>

lemma roundedScale_high_top:
  assumes ds: "double s" and lo: "549755813888000000 \<le> s" and hi: "s < 549755813888499968"
  shows "\<exists>k. roundedScale (Fin s) False = Fin (of_int k) \<and> nearest_multiple 1000000 s k"
proof -
  define x where "x = s / 1000000"
  have sx: "s = x * 1000000" by (simp add: x_def)
  have xlo: "2 powi 39 \<le> x" and xhi: "x < 2 powi (39 + 1)"
    using lo hi by (simp_all add: x_def)
  then have "\<bar>x\<bar> < 2 powi 1023"
    by simp
  then obtain q where q: "rnd x = Fin q"
    using rnd_finite by blast
  have "\<bar>q - x\<bar> \<le> 2 powi (39 - 53)"
    using q xlo xhi by (rule quotient_error) simp
  then have err: "\<bar>q - x\<bar> \<le> 1 / 16384"
    by (simp add: power_int_minus_divide)
  have "2 ^ 58 \<le> s" and "s < 2 ^ 59" using lo hi by simp_all
  with ds obtain ms :: int where ms: "s = of_int ms * 64"
    using double_grid_64 by blast
  have "real_of_int (64 * ms) < real_of_int 549755813888499968"
    using hi ms by simp
  then have "64 * ms < 549755813888499968"
    by (simp only: of_int_less_iff)
  then have "ms \<le> 8589934592007811"
    by linarith
  then have "64 * ms \<le> 549755813888499904"
    by linarith
  then have "real_of_int (64 * ms) \<le> real_of_int 549755813888499904"
    by (simp only: of_int_le_iff)
  then have top: "s \<le> 549755813888499904"
    using ms by simp
  then have "x \<le> 549755813888499904 / 1000000"
    by (simp add: x_def)
  with err have "q + 1 / 2 < 549755813888 + 1"
    by linarith
  moreover have "549755813888 \<le> x"
    using lo by (simp add: x_def)
  with err have "549755813888 \<le> q + 1 / 2"
    by linarith
  ultimately have n: "\<lfloor>q + 1 / 2\<rfloor> = 549755813888"
    by (simp add: floor_eq_iff)
  have near: "\<bar>real_of_int (\<lfloor>q + 1 / 2\<rfloor> * 1000000) - s\<bar> \<le> 500000"
    using lo top by (simp add: n)
  show ?thesis
  proof (rule roundedScale_of_near [OF _ near])
    show "rnd (s / 1000000) = Fin q" using q by (simp only: x_def)
    show "950000 < s" using lo by simp
    show "s < 549755813888499968" using hi by simp
  qed
qed

lemma roundedScale_high:
  assumes ds: "double s" and lo: "950000 < s" and hi: "s < 549755813888499968"
  shows "\<exists>k. roundedScale (Fin s) False = Fin (of_int k) \<and> nearest_multiple 1000000 s k"
proof -
  consider "s < 2 ^ 58" | "2 ^ 58 \<le> s" "s < 549755813888000000" | "549755813888000000 \<le> s"
    by linarith
  then show ?thesis
  proof cases
    case 1
    with ds lo show ?thesis by (rule roundedScale_high_small)
  next
    case 2
    with ds show ?thesis by (rule roundedScale_high_large)
  next
    case 3
    with ds show ?thesis using hi by (rule roundedScale_high_top)
  qed
qed

subsection \<open>Values of the rounding at the numbers of the examples\<close>

lemma rnd_eval:
  assumes lo: "2 powi e \<le> \<bar>x\<bar>" and hi: "\<bar>x\<bar> < 2 powi (e + 1)"
    and emin: "- 1022 \<le> e" and emax: "e \<le> 1022"
  shows "rnd x = Fin (of_int (rne (x / 2 powi (e - 52))) * 2 powi (e - 52))"
proof -
  have e: "expo x = e"
    using lo hi by (rule expo_eq)
  have u: "ulp_at x = 2 powi (e - 52)"
    using emin by (simp add: ulp_at_def e)
  have "(2::real) powi (e + 1) \<le> 2 powi 1023"
    using emax by (simp only: pow2_le_iff) 
  with hi have "\<bar>x\<bar> < 2 powi 1023" by linarith
  then obtain y where y: "rnd x = Fin y"
    using rnd_finite by blast
  then show ?thesis
    using rnd_Fin_eq [OF y] by (simp only: u)
qed

lemma rnd_value_1: "rnd (7 / 50) = Fin (1261007895663739 / 9007199254740992)"
  using rnd_eval [of "-3" "7 / 50"] by (simp add: rne_def)

lemma rnd_value_2: "rnd (7 / 25) = Fin (1261007895663739 / 4503599627370496)"
  using rnd_eval [of "-2" "7 / 25"] by (simp add: rne_def)

lemma rnd_value_3: "rnd (1) = Fin (1)"
  using rnd_eval [of "0" "1"] by (simp add: rne_def)

lemma rnd_value_4: "rnd (12 / 5) = Fin (5404319552844595 / 2251799813685248)"
  using rnd_eval [of "1" "12 / 5"] by (simp add: rne_def)

lemma rnd_value_5: "rnd (138271 / 4000) = Fin (4864978313094889 / 140737488355328)"
  using rnd_eval [of "5" "138271 / 4000"] by (simp add: rne_def)

lemma rnd_value_6: "rnd (15432 / 125) = Fin (8687443681197687 / 70368744177664)"
  using rnd_eval [of "6" "15432 / 125"] by (simp add: rne_def)

lemma rnd_value_7: "rnd (8483848899788799 / 68719476736000) = Fin (4343730636691865 / 35184372088832)"
  using rnd_eval [of "6" "8483848899788799 / 68719476736000"] by (simp add: rne_def)

lemma rnd_value_8: "rnd (140) = Fin (140)"
  using rnd_eval [of "7" "140"] by (simp add: rne_def)

lemma rnd_value_9: "rnd (157625986957967375 / 1125899906842624) = Fin (140)"
  using rnd_eval [of "7" "157625986957967375 / 1125899906842624"] by (simp add: rne_def)

lemma rnd_value_10: "rnd (630503947831869440 / 1261007895663739) = Fin (8796093022207999 / 17592186044416)"
  using rnd_eval [of "8" "630503947831869440 / 1261007895663739"] by (simp add: rne_def)

lemma rnd_value_11: "rnd (672) = Fin (672)"
  using rnd_eval [of "9" "672"] by (simp add: rne_def)

lemma rnd_value_12: "rnd (608122289136861125 / 17592186044416) = Fin (138271 / 4)"
  using rnd_eval [of "15" "608122289136861125 / 17592186044416"] by (simp add: rne_def)

lemma rnd_value_13: "rnd (138271 / 4) = Fin (138271 / 4)"
  using rnd_eval [of "15" "138271 / 4"] by (simp add: rne_def)

lemma rnd_value_14: "rnd (123000) = Fin (123000)"
  using rnd_eval [of "16" "123000"] by (simp add: rne_def)

lemma rnd_value_15: "rnd (155679306019036463104 / 1261007895663739) = Fin (8483848899788799 / 68719476736)"
  using rnd_eval [of "16" "155679306019036463104 / 1261007895663739"] by (simp add: rne_def)

lemma rnd_value_16: "rnd (672000) = Fin (672000)"
  using rnd_eval [of "19" "672000"] by (simp add: rne_def)

lemma rnd_value_17: "rnd (2000000) = Fin (2000000)"
  using rnd_eval [of "20" "2000000"] by (simp add: rne_def)

lemma rnd_value_18: "rnd (3026418949592973312000 / 1261007895663739) = Fin (2400000)"
  using rnd_eval [of "21" "3026418949592973312000 / 1261007895663739"] by (simp add: rne_def)

lemma rnd_value_19: "rnd (8589934592007812 / 15625) = Fin (1099511627777 / 2)"
  using rnd_eval [of "39" "8589934592007812 / 15625"] by (simp add: rne_def)

lemma rnd_value_20: "rnd (153931627888780) = Fin (153931627888780)"
  using rnd_eval [of "47" "153931627888780"] by (simp add: rne_def)

lemma rnd_value_21: "rnd (153931627888780000) = Fin (153931627888780000)"
  using rnd_eval [of "57" "153931627888780000"] by (simp add: rne_def)

lemma rnd_value_22: "rnd (693246422000443457891341434880000 / 1261007895663739) = Fin (549755813888499968)"
  using rnd_eval [of "58" "693246422000443457891341434880000 / 1261007895663739"] by (simp add: rne_def)

lemma rnd_value_23: "rnd (549755813889000000) = Fin (549755813889000000)"
  using rnd_eval [of "58" "549755813889000000"] by (simp add: rne_def)

lemmas rnd_values = rnd_value_1 rnd_value_2 rnd_value_3 rnd_value_4 rnd_value_5 rnd_value_6 rnd_value_7 rnd_value_8 rnd_value_9 rnd_value_10 rnd_value_11 rnd_value_12 rnd_value_13 rnd_value_14 rnd_value_15 rnd_value_16 rnd_value_17 rnd_value_18 rnd_value_19 rnd_value_20 rnd_value_21 rnd_value_22 rnd_value_23

subsection \<open>The scale\<close>

lemma getWMTSScale_rounded:
  assumes "getProj r (map_projection_code m) = Some p"
    and "map_size m = Some sz"
    and "mpu = (case getMetersPerUnit p of None \<Rightarrow> NaN | Some v \<Rightarrow> rnd v)"
    and "pix = number_at sz 0"
    and "ang = fsub (number_at (map_calculateExtent m sz) 2)
                    (number_at (map_calculateExtent m sz) 0)"
    and "fdiv (fmul (fdiv (fmul mpu ang) pix) (Fin 1000)) (rnd 0.28) = scale"
  shows "getWMTSScale r m exact = Inr (roundedScale scale exact)"
  using assms by (simp add: getWMTSScale_def scaleOf_def Let_def)

lemma mpu_EPSG_25830:
  "(case getMetersPerUnit (newOLProjection proj25830 ''EPSG:25830'') of
      None \<Rightarrow> NaN | Some v \<Rightarrow> rnd v) = Fin 1"
  by (simp add: getMetersPerUnit_def METERS_PER_UNIT_def newOLProjection_def proj25830_def
        rnd_values)

lemma scale_of_wmts_view:
  "fdiv (fmul (fdiv (fmul
       (case getMetersPerUnit (newOLProjection proj25830 ''EPSG:25830'') of
          None \<Rightarrow> NaN | Some v \<Rightarrow> rnd v)
       (fsub (number_at (map_calculateExtent (wmts_view width x2) [width, Fin 500]) 2)
             (number_at (map_calculateExtent (wmts_view width x2) [width, Fin 500]) 0)))
       (number_at [width, Fin 500] 0)) (Fin 1000)) (rnd 0.28)
     = scaleOf (Fin 1) (fsub x2 (Fin 0)) width"
  by (simp add: mpu_EPSG_25830 wmts_view_def number_at_def js_index_def scaleOf_def)

lemma scale_values:
  "scaleOf (Fin 1) (fsub (Fin 140) (Fin 0)) (Fin 1000) = Fin (8796093022207999 / 17592186044416)"
  "scaleOf (Fin 1) (fsub (Fin (138271 / 4)) (Fin 0)) (Fin 1000)
     = Fin (8483848899788799 / 68719476736)"
  "scaleOf (Fin 1) (fsub (Fin 672000) (Fin 0)) (Fin 1000) = Fin 2400000"
  "scaleOf (Fin 1) (fsub (Fin 153931627888780) (Fin 0)) (Fin 1) = Fin 549755813888499968"
  "scaleOf (Fin 1) (fsub (Fin 140) (Fin 0)) (Fin 0) = PosInf"
  by (simp_all add: scaleOf_def rnd_values signed_infinity_def jsign_def)

text \<open>
  Claim C6. Let the CRS of the map resolve and the viewport have a size, and let the raw
  scale, computed in doubles as \<open>(((mpu * ang) / pix) * 1000) / 0.28\<close> with \<open>ang\<close> the
  difference of the view extent's ordinates 2 and 0, be a finite number \<open>rawScale\<close>.
  When \<open>exact\<close> is set, \<open>getWMTSScale\<close> returns the integer part of \<open>rawScale\<close>. When it
  is not, it returns an integer that is a nearest multiple of 1 if \<open>rawScale < 1000\<close>, of
  1000 if \<open>1000 \<le> rawScale \<le> 950000\<close>, and of 1000000 if \<open>950000 < rawScale < 549755813888499968\<close>;
  the rounding step takes 123456 to 123000.
\<close>

theorem wmts_scale_rounding:
  assumes proj: "getProj r (map_projection_code m) = Some p"
    and size: "map_size m = Some sz"
    and mpu: "mpu = (case getMetersPerUnit p of None \<Rightarrow> NaN | Some v \<Rightarrow> rnd v)"
    and pix: "pix = number_at sz 0"
    and ang: "ang = fsub (number_at (map_calculateExtent m sz) 2)
                         (number_at (map_calculateExtent m sz) 0)"
    and raw: "fdiv (fmul (fdiv (fmul mpu ang) pix) (Fin 1000)) (rnd 0.28) = Fin rawScale"
  shows "(\<exists>k. getWMTSScale r m True = Inr (Fin (of_int k)) \<and> integer_part rawScale k)
       \<and> (rawScale < 1000 \<longrightarrow>
            (\<exists>k. getWMTSScale r m False = Inr (Fin (of_int k))
                 \<and> nearest_multiple 1 rawScale k))
       \<and> (1000 \<le> rawScale \<and> rawScale \<le> 950000 \<longrightarrow>
            (\<exists>k. getWMTSScale r m False = Inr (Fin (of_int k))
                 \<and> nearest_multiple 1000 rawScale k))
       \<and> (950000 < rawScale \<and> rawScale < 549755813888499968 \<longrightarrow>
            (\<exists>k. getWMTSScale r m False = Inr (Fin (of_int k))
                 \<and> nearest_multiple 1000000 rawScale k))
       \<and> roundedScale (Fin 123456) False = Fin 123000"
proof -
  have g: "getWMTSScale r m exact = Inr (roundedScale (Fin rawScale) exact)" for exact
    using proj size mpu pix ang raw by (rule getWMTSScale_rounded)
  have ds: "double rawScale"
    using raw by (rule fdiv_Fin_double)
  have "roundedScale (Fin rawScale) True = Math_trunc (Fin rawScale)"
    by (simp add: roundedScale_def)
  then have exact: "\<exists>k. getWMTSScale r m True = Inr (Fin (of_int k)) \<and> integer_part rawScale k"
    using Math_trunc_integer_part [of rawScale] by (simp add: g)
  have low: "\<exists>k. getWMTSScale r m False = Inr (Fin (of_int k)) \<and> nearest_multiple 1 rawScale k"
    if "rawScale < 1000"
    using roundedScale_low [OF that] by (simp add: g)
  have mid: "\<exists>k. getWMTSScale r m False = Inr (Fin (of_int k))
                \<and> nearest_multiple 1000 rawScale k"
    if "1000 \<le> rawScale \<and> rawScale \<le> 950000"
    using roundedScale_mid [OF ds] that by (simp add: g)
  have high: "\<exists>k. getWMTSScale r m False = Inr (Fin (of_int k))
                 \<and> nearest_multiple 1000000 rawScale k"
    if "950000 < rawScale \<and> rawScale < 549755813888499968"
    using roundedScale_high [OF ds] that by (simp add: g)
  have example: "roundedScale (Fin 123456) False = Fin 123000"
    by (simp add: roundedScale_def rnd_values)
  show ?thesis
    using exact low mid high example by blast
qed

theorem wmts_scale_rounding_witness:
  "(\<exists>k. getWMTSScale registered (wmts_view (Fin 1000) (Fin 140)) True = Inr (Fin (of_int k))
        \<and> integer_part (8796093022207999 / 17592186044416) k)
   \<and> (\<exists>k. getWMTSScale registered (wmts_view (Fin 1000) (Fin 140)) False = Inr (Fin (of_int k))
        \<and> nearest_multiple 1 (8796093022207999 / 17592186044416) k)
   \<and> (\<exists>k. getWMTSScale registered (wmts_view (Fin 1000) (Fin (138271 / 4))) False
          = Inr (Fin (of_int k))
        \<and> nearest_multiple 1000 (8483848899788799 / 68719476736) k)
   \<and> (\<exists>k. getWMTSScale registered (wmts_view (Fin 1000) (Fin 672000)) False
          = Inr (Fin (of_int k))
        \<and> nearest_multiple 1000000 2400000 k)
   \<and> getWMTSScale registered (wmts_view (Fin 1000) (Fin 140)) True = Inr (Fin 499)
   \<and> getWMTSScale registered (wmts_view (Fin 1000) (Fin 140)) False = Inr (Fin 500)
   \<and> getWMTSScale registered (wmts_view (Fin 1000) (Fin (138271 / 4))) True = Inr (Fin 123456)
   \<and> getWMTSScale registered (wmts_view (Fin 1000) (Fin (138271 / 4))) False = Inr (Fin 123000)
   \<and> getWMTSScale registered (wmts_view (Fin 1000) (Fin 672000)) False = Inr (Fin 2000000)"
proof -
  have proj: "getProj registered (map_projection_code (wmts_view width x2))
      = Some (newOLProjection proj25830 ''EPSG:25830'')" for width x2
    using getProj_EPSG_25830 by (simp add: wmts_view_def)
  have size: "map_size (wmts_view width x2) = Some [width, Fin 500]" for width x2
    by (simp add: wmts_view_def)
  have a: "fdiv (fmul (fdiv (fmul
       (case getMetersPerUnit (newOLProjection proj25830 ''EPSG:25830'') of
          None \<Rightarrow> NaN | Some v \<Rightarrow> rnd v)
       (fsub (number_at (map_calculateExtent (wmts_view (Fin 1000) (Fin 140)) [Fin 1000, Fin 500]) 2)
             (number_at (map_calculateExtent (wmts_view (Fin 1000) (Fin 140)) [Fin 1000, Fin 500]) 0)))
       (number_at [Fin 1000, Fin 500] 0)) (Fin 1000)) (rnd 0.28)
     = Fin (8796093022207999 / 17592186044416)"
    by (simp only: scale_of_wmts_view scale_values)
  have b: "fdiv (fmul (fdiv (fmul
       (case getMetersPerUnit (newOLProjection proj25830 ''EPSG:25830'') of
          None \<Rightarrow> NaN | Some v \<Rightarrow> rnd v)
       (fsub (number_at (map_calculateExtent (wmts_view (Fin 1000) (Fin (138271 / 4)))
                [Fin 1000, Fin 500]) 2)
             (number_at (map_calculateExtent (wmts_view (Fin 1000) (Fin (138271 / 4)))
                [Fin 1000, Fin 500]) 0)))
       (number_at [Fin 1000, Fin 500] 0)) (Fin 1000)) (rnd 0.28)
     = Fin (8483848899788799 / 68719476736)"
    by (simp only: scale_of_wmts_view scale_values)
  have c: "fdiv (fmul (fdiv (fmul
       (case getMetersPerUnit (newOLProjection proj25830 ''EPSG:25830'') of
          None \<Rightarrow> NaN | Some v \<Rightarrow> rnd v)
       (fsub (number_at (map_calculateExtent (wmts_view (Fin 1000) (Fin 672000))
                [Fin 1000, Fin 500]) 2)
             (number_at (map_calculateExtent (wmts_view (Fin 1000) (Fin 672000))
                [Fin 1000, Fin 500]) 0)))
       (number_at [Fin 1000, Fin 500] 0)) (Fin 1000)) (rnd 0.28)
     = Fin 2400000"
    by (simp only: scale_of_wmts_view scale_values)
  have outputs:
    "getWMTSScale registered (wmts_view (Fin 1000) (Fin 140)) True = Inr (Fin 499)"
    "getWMTSScale registered (wmts_view (Fin 1000) (Fin 140)) False = Inr (Fin 500)"
    "getWMTSScale registered (wmts_view (Fin 1000) (Fin (138271 / 4))) True = Inr (Fin 123456)"
    "getWMTSScale registered (wmts_view (Fin 1000) (Fin (138271 / 4))) False = Inr (Fin 123000)"
    "getWMTSScale registered (wmts_view (Fin 1000) (Fin 672000)) False = Inr (Fin 2000000)"
    by (simp_all add: getWMTSScale_rounded [OF proj size refl refl refl a]
          getWMTSScale_rounded [OF proj size refl refl refl b]
          getWMTSScale_rounded [OF proj size refl refl refl c]
          roundedScale_def rnd_values)
  show ?thesis
    using wmts_scale_rounding [OF proj size refl refl refl a]
      wmts_scale_rounding [OF proj size refl refl refl b]
      wmts_scale_rounding [OF proj size refl refl refl c]
      outputs
    by simp
qed

text \<open>
  The claim as it was stated, for every viewport width and every raw scale, fails. At a
  viewport width of 0 the raw scale is infinite and so is the value returned, which is no
  integer. And for a view extent of 153931627888780 map units on one pixel the raw scale
  is 549755813888499968 and the value returned, 549755813889000000, is 500032 away
  from it: the multiple of 1000000 below is nearer. This is the least raw scale at which
  the rounding is not to the nearest.
\<close>

theorem wmts_scale_counterexample:
  "getWMTSScale registered (wmts_view (Fin 0) (Fin 140)) False = Inr PosInf
   \<and> getWMTSScale registered (wmts_view (Fin 0) (Fin 140)) True = Inr PosInf
   \<and> scaleOf (Fin 1) (fsub (Fin 153931627888780) (Fin 0)) (Fin 1) = Fin 549755813888499968
   \<and> getWMTSScale registered (wmts_view (Fin 1) (Fin 153931627888780)) False
       = Inr (Fin 549755813889000000)
   \<and> \<not> nearest_multiple 1000000 549755813888499968 549755813889000000"
proof -
  have proj: "getProj registered (map_projection_code (wmts_view width x2))
      = Some (newOLProjection proj25830 ''EPSG:25830'')" for width x2
    using getProj_EPSG_25830 by (simp add: wmts_view_def)
  have size: "map_size (wmts_view width x2) = Some [width, Fin 500]" for width x2
    by (simp add: wmts_view_def)
  have zero: "getWMTSScale registered (wmts_view (Fin 0) (Fin 140)) exact
      = Inr (roundedScale PosInf exact)" for exact
    by (rule getWMTSScale_rounded [OF proj size refl refl refl])
       (simp only: scale_of_wmts_view scale_values)
  have huge: "getWMTSScale registered (wmts_view (Fin 1) (Fin 153931627888780)) exact
      = Inr (roundedScale (Fin 549755813888499968) exact)" for exact
    by (rule getWMTSScale_rounded [OF proj size refl refl refl])
       (simp only: scale_of_wmts_view scale_values)
  have raw: "scaleOf (Fin 1) (fsub (Fin 153931627888780) (Fin 0)) (Fin 1)
      = Fin 549755813888499968"
    by (simp only: scale_values)
  have result: "getWMTSScale registered (wmts_view (Fin 1) (Fin 153931627888780)) False
      = Inr (Fin 549755813889000000)"
    by (simp add: huge roundedScale_def rnd_values)
  have far: "\<not> nearest_multiple 1000000 549755813888499968 549755813889000000"
    by (simp add: nearest_multiple_def)
  have inf: "getWMTSScale registered (wmts_view (Fin 0) (Fin 140)) exact = Inr PosInf"
    for exact
    by (simp add: zero roundedScale_def signed_infinity_def jsign_def)
  from inf raw result far show ?thesis
    by (simp only: simp_thms)
qed

section \<open>Properties of the resolution generator\<close>

text \<open>
  Claim C5. The claim asks that an extent of width 2560 with \<open>minZoom = 0\<close> and
  \<open>maxZoom = 3\<close> give \<open>[10, 5, 2.5]\<close>. \<open>generateResolutions\<close> reads none of the three
  arguments it is given: with the extent passed, \<open>newExtent\<close> stays \<open>undefined\<close> and
  \<open>getWidth\<close> raises; with the extent left to the projection and the zoom bounds passed,
  the result is empty. Only with all three absent does it compute \<open>(width / 256) / 2^i\<close>,
  for the 20 default levels.
\<close>

theorem generateResolutions_drops_given_arguments:
  "generateResolutions p (Some [0, 0, 2560, 2560]) (Some 0) (Some 3) = Inl TypeError
   \<and> generateResolutions (p\<lparr>proj_extent := Some [0, 0, 2560, 2560]\<rparr>) None (Some 0) (Some 3) = Inr []
   \<and> generateResolutions (p\<lparr>proj_extent := Some [0, 0, 2560, 2560]\<rparr>) None None None
       = Inr (map (\<lambda>i. 10 / 2 ^ i) [0 ..< 20])"
  by (simp add: generateResolutions_def isNullOrEmpty_array_def isNullOrEmpty_def getWidth_def
        js_index_def defaultMaxZoom_def)

section \<open>Properties of the geometry decoder\<close>

text \<open>
  Claim C4. The claim asks that the geometry be decoded directly, with no reprojection,
  whenever the tile CRS or the map CRS is absent. With the tile CRS given and the map CRS
  absent, \<open>olRenderFeature2olFeature\<close> hands the clone to the toolkit's transform, with
  the absent map CRS as target, and decodes what the transform leaves: a transform that
  doubles the coordinates gives the Point \<open>(2, 4)\<close> for the tiled Point \<open>(1, 2)\<close>. With
  the tile CRS absent the Point is decoded as it is.
\<close>

theorem decode_with_absent_map_crs_reprojects:
  "olRenderFeature2olFeature rfTransform generatedId (Some tile_point) (Some tile_crs) None
     = (case rfTransform tile_crs None tile_point of
          Inl e \<Rightarrow> Inl e
        | Inr transformed \<Rightarrow>
            Inr (Some \<lparr>df_id = ''a'', df_properties = [],
                       df_geometry = Some (getGeometryFromRenderFeature transformed)\<rparr>))
   \<and> olRenderFeature2olFeature
         (\<lambda>src dst rf. Inr (rf\<lparr>rf_flatCoordinates := map (\<lambda>c. 2 * c) (rf_flatCoordinates rf)\<rparr>))
         generatedId (Some tile_point) (Some tile_crs) None
     = Inr (Some \<lparr>df_id = ''a'', df_properties = [], df_geometry = Some (NewPoint [2, 4])\<rparr>)
   \<and> olRenderFeature2olFeature rfTransform generatedId (Some tile_point) None mapProjection
     = Inr (Some \<lparr>df_id = ''a'', df_properties = [], df_geometry = Some (NewPoint [1, 2])\<rparr>)"
  by (simp add: olRenderFeature2olFeature_def isNullOrEmpty_def isNullOrEmpty_array_def
        isNullOrEmpty_string_def cloneOLRenderFeature_def getGeometryFromRenderFeature_def
        tile_point_def tile_crs_def split: sum.splits)

section \<open>Properties of the GeoJSON reprojector\<close>

text \<open>
  Claim C3. The claim asks that \<open>geojsonTo4326\<close> leave every coordinate array of its
  input as it was. For a Point feature whose coordinates are the array \<open>[10, 20, 5]\<close> the
  call writes the transformed pair into that array, \<open>[1, 2, 5]\<close> after the call, and
  returns a feature with the very same array; for a LineString the outer array is new,
  but each coordinate tuple of the input is overwritten in the same way.
\<close>

theorem reprojection_overwrites_input_coordinates:
  "cells point_store 0 = Some [JNum 10, JNum 20, JNum 5]
   \<and> (\<exists>s'. geojsonTo4326 (\<lambda>src dst. Some tenth) [point_feature] ''EPSG:25830'' point_store
            = Inr ([point_feature], s')
          \<and> cells s' 0 = Some [JNum 1, JNum 2, JNum 5])
   \<and> cells line_store 1 = Some [JNum 10, JNum 20]
   \<and> (\<exists>s'. geojsonTo4326 (\<lambda>src dst. Some tenth) [line_feature] ''EPSG:25830'' line_store
            = Inr ([line_feature\<lparr>gj_coordinates := JRef 3\<rparr>], s')
          \<and> cells s' 0 = Some [JRef 1, JRef 2]
          \<and> cells s' 1 = Some [JNum 1, JNum 2]
          \<and> cells s' 2 = Some [JNum 3, JNum 4]
          \<and> cells s' 3 = Some [JRef 1, JRef 2])"
  by (simp add: geojsonTo4326_def reprojectFeature_def getTransformedCoordinates_def getXY_def
        getFullCoordinates_def js_array_set_def js_element_def js_index_def loop_over_def alloc_def
        createGeoJSONFeature_def tenth_def point_store_def point_feature_def line_store_def
        line_feature_def)

end
